theory Spec2Isabelle
  imports Complex_Main
begin

section \<open>JavaScript values used by the listing code\<close>

text \<open>
  Numbers that the code only compares, multiplies and serialises are modelled as
  \<open>int option\<close>: \<open>Some n\<close> is the integer \<open>n\<close> (exact, as JavaScript is on safe integers)
  and \<open>None\<close> is a non-finite number (\<open>NaN\<close>, \<open>Infinity\<close>), which JSON serialises as
  \<open>null\<close>. Strings are byte strings; the Chinese messages of the source are given by their
  UTF-8 bytes. A thrown value is an \<open>Error\<close> object with a name and a message, as the
  source's cast \<open>(error as Error)\<close> takes it to be.
\<close>

datatype js_error = JsError (err_name: string) (err_message: string)

text \<open>\<open>s || d\<close> on an optional string: \<open>null\<close>, \<open>undefined\<close> and \<open>''\<close> are falsy.\<close>

definition or_default :: "string option \<Rightarrow> string \<Rightarrow> string" where
  "or_default s d = (case s of None \<Rightarrow> d | Some v \<Rightarrow> if v = [] then d else v)"

text \<open>\<open>s || undefined\<close>.\<close>

definition or_undefined :: "string option \<Rightarrow> string option" where
  "or_undefined s = (case s of None \<Rightarrow> None | Some v \<Rightarrow> if v = [] then None else Some v)"

text \<open>\<open>!s\<close> on an optional string.\<close>

definition falsy :: "string option \<Rightarrow> bool" where
  "falsy s = (case s of None \<Rightarrow> True | Some v \<Rightarrow> v = [])"

text \<open>\<open>n || d\<close> on an optional number: \<open>undefined\<close>, \<open>null\<close>, \<open>NaN\<close> and \<open>0\<close> are falsy.\<close>

definition num_or :: "int option \<Rightarrow> int \<Rightarrow> int" where
  "num_or n d = (case n of None \<Rightarrow> d | Some v \<Rightarrow> if v = 0 then d else v)"

subsection \<open>\<open>parseInt\<close> and \<open>Number.prototype.toString\<close>\<close>

text \<open>
  \<open>parseInt(s)\<close> without a radix: leading white space is skipped (the ASCII white space
  characters here), then an optional sign, then an optional \<open>0x\<close>/\<open>0X\<close> prefix selecting
  radix 16, then the longest prefix of digits of the radix; no digit gives \<open>NaN\<close>.
\<close>

definition is_space :: "char \<Rightarrow> bool" where
  "is_space c = (c \<in> set [CHR 0x09, CHR 0x0A, CHR 0x0B, CHR 0x0C, CHR 0x0D, CHR 0x20])"

definition digit_value :: "nat \<Rightarrow> char \<Rightarrow> nat option" where
  "digit_value radix c =
     (let n = (of_char c :: nat);
          v = (if 48 \<le> n \<and> n \<le> 57 then Some (n - 48)
               else if 97 \<le> n \<and> n \<le> 122 then Some (n - 87)
               else if 65 \<le> n \<and> n \<le> 90 then Some (n - 55)
               else None)
      in case v of None \<Rightarrow> None | Some d \<Rightarrow> if d < radix then Some d else None)"

fun parse_digits :: "nat \<Rightarrow> string \<Rightarrow> nat list" where
  "parse_digits radix [] = []"
| "parse_digits radix (c # cs) =
     (case digit_value radix c of None \<Rightarrow> [] | Some d \<Rightarrow> d # parse_digits radix cs)"

definition strip_sign :: "string \<Rightarrow> int \<times> string" where
  "strip_sign s =
     (case s of
        [] \<Rightarrow> (1, [])
      | c # cs \<Rightarrow> if c = CHR ''-'' then (- 1, cs) else if c = CHR ''+'' then (1, cs) else (1, s))"

definition strip_radix :: "string \<Rightarrow> nat \<times> string" where
  "strip_radix s =
     (case s of
        a # b # cs \<Rightarrow>
          if a = CHR ''0'' \<and> (b = CHR ''x'' \<or> b = CHR ''X'') then (16, cs) else (10, s)
      | _ \<Rightarrow> (10, s))"

definition parseInt :: "string \<Rightarrow> int option" where
  "parseInt s =
     (let (sign, s1) = strip_sign (dropWhile is_space s);
          (radix, s2) = strip_radix s1;
          ds = parse_digits radix s2
      in if ds = [] then None
         else Some (sign * int (foldl (\<lambda>a d. a * radix + d) 0 ds)))"

text \<open>\<open>n.toString()\<close> for an integer \<open>n\<close>: its decimal digits, with a minus sign.\<close>

definition digit_char :: "nat \<Rightarrow> char" where
  "digit_char d = ''0123456789'' ! d"

fun nat_digits :: "nat \<Rightarrow> nat list" where
  "nat_digits n = (if n < 10 then [n] else nat_digits (n div 10) @ [n mod 10])"

declare nat_digits.simps [simp del]

definition digits_of_nat :: "nat \<Rightarrow> string" where
  "digits_of_nat n = map digit_char (nat_digits n)"

definition toString :: "int \<Rightarrow> string" where
  "toString i = (if i < 0 then CHR ''-'' # digits_of_nat (nat (- i)) else digits_of_nat (nat i))"

section \<open>The listing endpoint: \<open>GET\<close>\<close>

subsection \<open>Data\<close>

datatype media_type = movie | tv

text \<open>The \<open>Video\<close> interface of the page; the endpoint's items are values of it.\<close>

record video =
  video_id :: string
  video_folder :: "string option"
  video_tmdbId :: "int option"
  video_title :: string
  video_poster :: string
  video_releaseDate :: "string option"
  video_year :: "string option"
  video_overview :: "string option"
  video_voteAverage :: "rat option"
  video_rating :: "rat option"
  video_mediaType :: media_type

text \<open>An item as the media server returns it: the fields the endpoint reads.\<close>

record emby_item =
  item_Id :: string
  item_Name :: string
  item_ProductionYear :: "int option"
  item_CommunityRating :: "rat option"
  item_Type :: string

record items_query =
  q_ParentId :: "string option"
  q_IncludeItemTypes :: string
  q_Recursive :: bool
  q_Fields :: string
  q_SortBy :: string
  q_SortOrder :: string
  q_StartIndex :: "int option"
  q_Limit :: "int option"

record items_result =
  res_Items :: "emby_item list"
  res_TotalRecordCount :: int

text \<open>
  The JSON object the endpoint answers with. \<open>resp_success\<close> and \<open>resp_error\<close> are keys
  that one of the two shapes lacks (\<open>None\<close>); the other four keys are in both.
\<close>

record response =
  resp_success :: "bool option"
  resp_error :: "string option"
  resp_list :: "video list"
  resp_totalPages :: "int option"
  resp_currentPage :: "int option"
  resp_total :: int

text \<open>
  The collaborators of the endpoint, which are not part of the listing code, are its
  parameters: the Emby client (\<open>client.getItems\<close>, \<open>client.getImageUrl\<close>), the client
  manager (\<open>embyManager.getClient\<close>) and the cache lookup (\<open>getCachedEmbyList\<close>). A call
  that throws returns \<open>Inl\<close>. The calls made are recorded, in order, as events; the cache
  write (\<open>setCachedEmbyList\<close>) is such an event.
\<close>

record emby_client =
  getItems :: "items_query \<Rightarrow> js_error + items_result"
  getImageUrl :: "string \<Rightarrow> string \<Rightarrow> string"

record backend =
  getCachedEmbyList ::
    "int option \<Rightarrow> int option \<Rightarrow> string option \<Rightarrow> string option \<Rightarrow> response option"
  getClient :: "string option \<Rightarrow> js_error + emby_client"

datatype event =
    CacheRead "int option" "int option" "string option" "string option"
  | GetClient "string option"
  | GetItems items_query
  | CacheWrite "int option" "int option" response "string option" "string option"




text \<open>The query parameters, as \<open>searchParams.get\<close> returns them (\<open>None\<close> is \<open>null\<close>).\<close>

record request =
  param_page :: "string option"
  param_pageSize :: "string option"
  param_parentId :: "string option"
  param_embyKey :: "string option"
  param_sortBy :: "string option"
  param_sortOrder :: "string option"

subsection \<open>The handler\<close>

definition req_page :: "request \<Rightarrow> int option" where
  "req_page rq = parseInt (or_default (param_page rq) ''1'')"

definition req_pageSize :: "request \<Rightarrow> int option" where
  "req_pageSize rq = parseInt (or_default (param_pageSize rq) ''20'')"

definition req_parentId :: "request \<Rightarrow> string option" where
  "req_parentId rq = or_undefined (param_parentId rq)"

definition req_embyKey :: "request \<Rightarrow> string option" where
  "req_embyKey rq = or_undefined (param_embyKey rq)"

definition req_sortBy :: "request \<Rightarrow> string" where
  "req_sortBy rq = or_default (param_sortBy rq) ''SortName''"

definition req_sortOrder :: "request \<Rightarrow> string" where
  "req_sortOrder rq = or_default (param_sortOrder rq) ''Ascending''"

definition isDefaultSort :: "request \<Rightarrow> bool" where
  "isDefaultSort rq = (req_sortBy rq = ''SortName'' \<and> req_sortOrder rq = ''Ascending'')"

text \<open>\<open>(page - 1) * pageSize\<close>: \<open>NaN\<close> if either is.\<close>

definition start_index :: "int option \<Rightarrow> int option \<Rightarrow> int option" where
  "start_index pg ps =
     (case pg of None \<Rightarrow> None
      | Some p \<Rightarrow> (case ps of None \<Rightarrow> None | Some s \<Rightarrow> Some ((p - 1) * s)))"

text \<open>
  \<open>Math.ceil(total / pageSize)\<close>: a division by zero or by \<open>NaN\<close> is not finite.
\<close>

definition Math_ceil_div :: "int \<Rightarrow> int option \<Rightarrow> int option" where
  "Math_ceil_div cnt ps =
     (case ps of None \<Rightarrow> None
      | Some s \<Rightarrow> if s = 0 then None else Some \<lceil>(of_int cnt :: rat) / of_int s\<rceil>)"

text \<open>The arrow function mapped over \<open>result.Items\<close>.\<close>

definition normalize_item :: "emby_client \<Rightarrow> emby_item \<Rightarrow> video" where
  "normalize_item client item =
     \<lparr> video_id = item_Id item,
       video_folder = None,
       video_tmdbId = None,
       video_title = item_Name item,
       video_poster = getImageUrl client (item_Id item) ''Primary'',
       video_releaseDate = None,
       video_year =
         Some (case item_ProductionYear item of None \<Rightarrow> [] | Some y \<Rightarrow> toString y),
       video_overview = None,
       video_voteAverage = None,
       video_rating =
         Some (case item_CommunityRating item of None \<Rightarrow> 0 | Some r \<Rightarrow> r),
       video_mediaType = (if item_Type item = ''Movie'' then movie else tv) \<rparr>"

definition items_query_of :: "request \<Rightarrow> items_query" where
  "items_query_of rq =
     \<lparr> q_ParentId = req_parentId rq,
       q_IncludeItemTypes = ''Movie,Series'',
       q_Recursive = True,
       q_Fields = ''Overview,ProductionYear'',
       q_SortBy = req_sortBy rq,
       q_SortOrder = req_sortOrder rq,
       q_StartIndex = start_index (req_page rq) (req_pageSize rq),
       q_Limit = req_pageSize rq \<rparr>"

definition success_response :: "request \<Rightarrow> emby_client \<Rightarrow> items_result \<Rightarrow> response" where
  "success_response rq client result =
     \<lparr> resp_success = Some True,
       resp_error = None,
       resp_list = map (normalize_item client) (res_Items result),
       resp_totalPages = Math_ceil_div (res_TotalRecordCount result) (req_pageSize rq),
       resp_currentPage = req_page rq,
       resp_total = res_TotalRecordCount result \<rparr>"

text \<open>The message prefix of the \<open>catch\<close> block, in UTF-8, ending in \<open>: \<close>.\<close>

definition emby_list_failed :: string where
  "emby_list_failed =
     map char_of [232, 142, 183, 229, 143, 150 :: nat] @ '' Emby '' @
     map char_of [229, 136, 151, 232, 161, 168, 229, 164, 177, 232, 180, 165 :: nat] @ '': ''"

definition failure_response :: "request \<Rightarrow> js_error \<Rightarrow> response" where
  "failure_response rq e =
     \<lparr> resp_success = None,
       resp_error = Some (emby_list_failed @ err_message e),
       resp_list = [],
       resp_totalPages = Some 0,
       resp_currentPage = req_page rq,
       resp_total = 0 \<rparr>"

text \<open>
  The \<open>try\<close> block: \<open>Inl\<close> is an exception on its way to the \<open>catch\<close>. The events are
  those made until the block is left.
\<close>

definition cache_key_read :: "request \<Rightarrow> event" where
  "cache_key_read rq = CacheRead (req_page rq) (req_pageSize rq) (req_parentId rq) (req_embyKey rq)"

definition cache_key_write :: "request \<Rightarrow> response \<Rightarrow> event" where
  "cache_key_write rq r =
     CacheWrite (req_page rq) (req_pageSize rq) r (req_parentId rq) (req_embyKey rq)"

definition cache_lookup :: "backend \<Rightarrow> request \<Rightarrow> response option" where
  "cache_lookup be rq =
     getCachedEmbyList be (req_page rq) (req_pageSize rq) (req_parentId rq) (req_embyKey rq)"

definition GET_fetch :: "backend \<Rightarrow> request \<Rightarrow> (js_error + response) \<times> event list" where
  "GET_fetch be rq =
     (case getClient be (req_embyKey rq) of
        Inl e \<Rightarrow> (Inl e, [GetClient (req_embyKey rq)])
      | Inr client \<Rightarrow>
          (case getItems client (items_query_of rq) of
             Inl e \<Rightarrow> (Inl e, [GetClient (req_embyKey rq), GetItems (items_query_of rq)])
           | Inr result \<Rightarrow>
               (let response = success_response rq client result in
                (Inr response,
                 [GetClient (req_embyKey rq), GetItems (items_query_of rq)] @
                 (if isDefaultSort rq then [cache_key_write rq response] else [])))))"

definition GET_try :: "backend \<Rightarrow> request \<Rightarrow> (js_error + response) \<times> event list" where
  "GET_try be rq =
     (if isDefaultSort rq then
        (case cache_lookup be rq of
           Some cached \<Rightarrow> (Inr cached, [cache_key_read rq])
         | None \<Rightarrow> (let (r, evs) = GET_fetch be rq in (r, cache_key_read rq # evs)))
      else GET_fetch be rq)"

definition GET :: "backend \<Rightarrow> request \<Rightarrow> response \<times> event list" where
  "GET be rq =
     (case GET_try be rq of
        (Inr resp, evs) \<Rightarrow> (resp, evs)
      | (Inl e, evs) \<Rightarrow> (failure_response rq e, evs))"

section \<open>The page: session state, effects and handlers\<close>

subsection \<open>State\<close>

record runtime_config =
  OPENLIST_ENABLED :: bool
  EMBY_ENABLED :: bool
  XIAOYA_ENABLED :: bool

text \<open>An entry \<open>{name, path}\<close> of the flat-file listing.\<close>

record entry =
  entry_name :: string
  entry_path :: string

text \<open>
  The \<open>useState\<close> variables and \<open>useRef\<close> cells that the listing logic of
  \<open>PrivateLibraryPage\<close> reads or writes. \<open>signals\<close> holds \<open>signal.aborted\<close> of every
  \<open>AbortController\<close> created so far; a controller is its index, and
  \<open>abortControllerRef\<close> is the index of the current one (\<open>None\<close> is \<open>null\<close>).
\<close>

record session =
  sourceType :: string
  embyKey :: "string option"
  videos :: "video list"
  loading :: bool
  loadingMore :: bool
  error :: string
  page :: int
  hasMore :: bool
  selectedView :: string
  sortBy :: string
  sortOrder :: string
  xiaoyaPath :: string
  xiaoyaFolders :: "entry list"
  xiaoyaFiles :: "entry list"
  isFetchingRef :: bool
  abortControllerRef :: "nat option"
  isInitializedRef :: bool
  signals :: "bool list"

definition initial_session :: session where
  "initial_session =
     \<lparr> sourceType = ''openlist'',
       embyKey = None,
       videos = [],
       loading = True,
       loadingMore = False,
       error = [],
       page = 1,
       hasMore = True,
       selectedView = ''all'',
       sortBy = ''SortName'',
       sortOrder = ''Ascending'',
       xiaoyaPath = ''/'',
       xiaoyaFolders = [],
       xiaoyaFiles = [],
       isFetchingRef = False,
       abortControllerRef = None,
       isInitializedRef = False,
       signals = [] \<rparr>"

definition pageSize :: int where
  "pageSize = 20"

text \<open>\<open>controller.abort()\<close> and \<open>controller.signal.aborted\<close>.\<close>

definition abort :: "nat \<Rightarrow> session \<Rightarrow> session" where
  "abort c st = st\<lparr>signals := (signals st)[c := True]\<rparr>"

definition aborted :: "session \<Rightarrow> nat \<Rightarrow> bool" where
  "aborted st c = (c < length (signals st) \<and> signals st ! c)"

subsection \<open>What a fetch is sent to and what comes back\<close>

text \<open>
  The endpoint of a call, by its query parameters (the template string of the source puts
  them into the URL as they are).
\<close>

datatype endpoint =
    OpenlistList int int
  | XiaoyaBrowse string
  | EmbyList request

text \<open>The JSON of any of the three endpoints, as far as \<open>fetchVideos\<close> reads it.\<close>

record data =
  data_error :: "string option"
  data_list :: "video list option"
  data_page :: "int option"
  data_totalPages :: "int option"
  data_folders :: "entry list option"
  data_files :: "entry list option"

text \<open>
  How the two awaits of the \<open>try\<close> block end: one of the promises rejects, or the
  response is not \<open>ok\<close>, or the body parses to \<open>data\<close>.
\<close>

datatype fetch_outcome = Rejected js_error | NotOk | Json data

text \<open>The closure of a \<open>fetchVideos\<close> call that is waiting for its response.\<close>

record fetch_call =
  fc_controller :: nat
  fc_isInitial :: bool
  fc_sourceType :: string
  fc_page :: int
  fc_endpoint :: endpoint

definition abort_error :: js_error where
  "abort_error = JsError ''AbortError'' ''The operation was aborted.''"

text \<open>
  \<open>fetch\<close> with a signal: once the signal is aborted the pending promise rejects with an
  \<open>AbortError\<close>, whatever the network would have answered.
\<close>

definition deliver :: "session \<Rightarrow> fetch_call \<Rightarrow> fetch_outcome \<Rightarrow> fetch_outcome" where
  "deliver st fc net = (if aborted st (fc_controller fc) then Rejected abort_error else net)"

subsection \<open>\<open>fetchVideos\<close>\<close>

text \<open>The message of the page's own failures, in UTF-8.\<close>

definition fetch_failed :: string where
  "fetch_failed =
     map char_of [232, 142, 183, 229, 143, 150, 232, 167, 134, 233, 162, 145,
                  229, 136, 151, 232, 161, 168, 229, 164, 177, 232, 180, 165 :: nat]"

definition endpoint_of :: "session \<Rightarrow> endpoint" where
  "endpoint_of r =
     (if sourceType r = ''openlist'' then OpenlistList (page r) pageSize
      else if sourceType r = ''xiaoya'' then XiaoyaBrowse (xiaoyaPath r)
      else EmbyList
        \<lparr> param_page = Some (toString (page r)),
          param_pageSize = Some (toString pageSize),
          param_parentId = (if selectedView r \<noteq> ''all'' then Some (selectedView r) else None),
          param_embyKey = Some (case embyKey r of None \<Rightarrow> ''undefined'' | Some k \<Rightarrow> k),
          param_sortBy = Some (sortBy r),
          param_sortOrder = Some (sortOrder r) \<rparr>)"

text \<open>
  The effect's cleanup function, and the same two lines at the head of \<open>fetchVideos\<close>.
\<close>

definition fetchVideos_cleanup :: "session \<Rightarrow> session" where
  "fetchVideos_cleanup st = (case abortControllerRef st of None \<Rightarrow> st | Some c \<Rightarrow> abort c st)"

text \<open>
  \<open>fetchVideos\<close> up to its first \<open>await\<close>. \<open>r\<close> is the render whose values the closure
  holds; \<open>st\<close> is the state being written. The result is the new state and the call that
  now waits, if one was made.
\<close>

definition fetchVideos_start ::
    "runtime_config \<Rightarrow> session \<Rightarrow> session \<Rightarrow> session \<times> fetch_call option" where
  "fetchVideos_start cfg r st =
     (let isInitial = (page r = 1);
          st1 = (case abortControllerRef st of None \<Rightarrow> st | Some c \<Rightarrow> abort c st)
      in if sourceType r = ''openlist'' \<and> \<not> OPENLIST_ENABLED cfg then
           (st1\<lparr>loading := False\<rparr>, None)
         else if sourceType r = ''emby'' \<and> (\<not> EMBY_ENABLED cfg \<or> falsy (embyKey r)) then
           (st1\<lparr>loading := False\<rparr>, None)
         else if sourceType r = ''xiaoya'' \<and> \<not> XIAOYA_ENABLED cfg then
           (st1\<lparr>loading := False\<rparr>, None)
         else
           (let c = length (signals st1);
                st2 = st1\<lparr>signals := signals st1 @ [False],
                          abortControllerRef := Some c,
                          isFetchingRef := True\<rparr>;
                st3 = (if isInitial then st2\<lparr>loading := True\<rparr> else st2\<lparr>loadingMore := True\<rparr>);
                st4 = st3\<lparr>error := []\<rparr>
            in (st4,
                Some \<lparr> fc_controller = c,
                       fc_isInitial = isInitial,
                       fc_sourceType = sourceType r,
                       fc_page = page r,
                       fc_endpoint = endpoint_of r \<rparr>)))"

text \<open>The \<open>catch\<close> block.\<close>

definition fetchVideos_catch :: "fetch_call \<Rightarrow> js_error \<Rightarrow> session \<Rightarrow> session" where
  "fetchVideos_catch fc e st =
     (if err_name e = ''AbortError'' then st
      else (let st1 = st\<lparr>error := fetch_failed\<rparr>
            in if fc_isInitial fc then st1\<lparr>videos := []\<rparr> else st1))"

text \<open>The \<open>finally\<close> block.\<close>

definition fetchVideos_finally :: "fetch_call \<Rightarrow> session \<Rightarrow> session" where
  "fetchVideos_finally fc st =
     (if \<not> aborted st (fc_controller fc) then
        (let st1 = (if fc_isInitial fc then st\<lparr>loading := False\<rparr> else st\<lparr>loadingMore := False\<rparr>)
         in st1\<lparr>isFetchingRef := False\<rparr>)
      else st)"

text \<open>The \<open>else\<close> branch of the \<open>try\<close> block: \<open>data.error\<close> is falsy.\<close>

definition fetchVideos_success :: "fetch_call \<Rightarrow> data \<Rightarrow> session \<Rightarrow> session" where
  "fetchVideos_success fc d st =
     (if fc_sourceType fc = ''xiaoya'' then
        st\<lparr>xiaoyaFolders := (case data_folders d of None \<Rightarrow> [] | Some fs \<Rightarrow> fs),
           xiaoyaFiles := (case data_files d of None \<Rightarrow> [] | Some fs \<Rightarrow> fs),
           videos := [],
           hasMore := False\<rparr>
      else
        (let newVideos = (case data_list d of None \<Rightarrow> [] | Some vs \<Rightarrow> vs);
             st1 = (if fc_isInitial fc then st\<lparr>videos := newVideos\<rparr>
                    else st\<lparr>videos := videos st @ newVideos\<rparr>);
             currentPage = num_or (data_page d) (fc_page fc);
             totalPages = num_or (data_totalPages d) 1;
             hasMoreData = (currentPage < totalPages)
         in st1\<lparr>hasMore := hasMoreData\<rparr>))"

text \<open>The \<open>try\<close> block after \<open>data\<close> has arrived.\<close>

definition fetchVideos_data :: "fetch_call \<Rightarrow> data \<Rightarrow> session \<Rightarrow> session" where
  "fetchVideos_data fc d st =
     (case data_error d of
        None \<Rightarrow> fetchVideos_success fc d st
      | Some msg \<Rightarrow>
          (if msg = [] then fetchVideos_success fc d st
           else (let st1 = st\<lparr>error := msg\<rparr>
                 in if fc_isInitial fc then st1\<lparr>videos := []\<rparr> else st1)))"

text \<open>
  \<open>fetchVideos\<close> from its first \<open>await\<close> on, for the way the awaits ended: a response
  that is not \<open>ok\<close> throws an \<open>Error\<close> with the page's message.
\<close>

definition fetchVideos_resume :: "fetch_call \<Rightarrow> fetch_outcome \<Rightarrow> session \<Rightarrow> session" where
  "fetchVideos_resume fc out st =
     fetchVideos_finally fc
       (case out of
          Rejected e \<Rightarrow> fetchVideos_catch fc e st
        | NotOk \<Rightarrow> fetchVideos_catch fc (JsError ''Error'' fetch_failed) st
        | Json d \<Rightarrow> fetchVideos_data fc d st)"

subsection \<open>The other effects and the handlers\<close>

text \<open>\<open>parseSourceParam\<close>: the source type and the Emby key of \<open>type:key\<close>.\<close>

definition parseSourceParam :: "string option \<Rightarrow> string \<times> string option" where
  "parseSourceParam sourceParam =
     (if falsy sourceParam then (''openlist'', None)
      else (let s = (case sourceParam of None \<Rightarrow> [] | Some v \<Rightarrow> v)
            in if CHR '':'' \<in> set s then
                 (takeWhile (\<lambda>c. c \<noteq> CHR '':'') s,
                  Some (takeWhile (\<lambda>c. c \<noteq> CHR '':'') (tl (dropWhile (\<lambda>c. c \<noteq> CHR '':'') s))))
               else (s, None)))"

text \<open>The effect that reads the \<open>source\<close> parameter of the URL.\<close>

definition init_effect :: "runtime_config \<Rightarrow> string option \<Rightarrow> session \<Rightarrow> session" where
  "init_effect cfg urlSourceParam st =
     (let parsed = parseSourceParam urlSourceParam;
          st1 = (if \<not> OPENLIST_ENABLED cfg \<and> EMBY_ENABLED cfg then st\<lparr>sourceType := ''emby''\<rparr>
                 else if fst parsed \<noteq> [] then
                   (let st2 = st\<lparr>sourceType := fst parsed\<rparr>
                    in if \<not> falsy (snd parsed)
                       then st2\<lparr>embyKey := snd parsed\<rparr> else st2)
                 else st)
      in st1\<lparr>isInitializedRef := True\<rparr>)"

text \<open>The three reset effects, on \<open>[sourceType, embyKey]\<close>, \<open>[selectedView]\<close> and
  \<open>[sortBy, sortOrder, sourceType]\<close>.\<close>

definition reset_on_source :: "session \<Rightarrow> session" where
  "reset_on_source st =
     (if \<not> isInitializedRef st then st
      else st\<lparr>page := 1,
              videos := [],
              hasMore := True,
              error := [],
              selectedView := ''all'',
              loading := False,
              loadingMore := False,
              isFetchingRef := False\<rparr>)"

definition reset_on_view :: "session \<Rightarrow> session" where
  "reset_on_view st =
     (if \<not> isInitializedRef st then st
      else st\<lparr>page := 1,
              videos := [],
              hasMore := True,
              error := [],
              loading := False,
              loadingMore := False,
              isFetchingRef := False\<rparr>)"

definition reset_on_sort :: "session \<Rightarrow> session \<Rightarrow> session" where
  "reset_on_sort r st =
     (if \<not> isInitializedRef st then st
      else if sourceType r \<noteq> ''emby'' then st
      else st\<lparr>page := 1,
              videos := [],
              hasMore := True,
              error := [],
              loading := False,
              loadingMore := False,
              isFetchingRef := False\<rparr>)"

text \<open>The callback of the \<open>IntersectionObserver\<close>.\<close>

definition observer_callback :: "bool \<Rightarrow> session \<Rightarrow> session \<Rightarrow> session" where
  "observer_callback isIntersecting r st =
     (if isIntersecting \<and> hasMore r \<and> \<not> loadingMore r \<and> \<not> loading r \<and> \<not> isFetchingRef st
      then st\<lparr>page := page st + 1\<rparr> else st)"

definition toggleSortOrder :: "session \<Rightarrow> session \<Rightarrow> session" where
  "toggleSortOrder r st =
     st\<lparr>sortOrder := (if sortOrder r = ''Ascending'' then ''Descending'' else ''Ascending'')\<rparr>"

subsection \<open>Renders and effects\<close>

text \<open>
  A \<open>useEffect\<close> with a dependency list runs after a render in which one of its
  dependencies differs from the previous render, in the order of the source, cleanups
  first. \<open>commit cfg prev r\<close> is such a pass after the render \<open>r\<close> that follows the render
  \<open>prev\<close>: closures read \<open>r\<close>, and the writes accumulate. (\<open>runtimeConfig\<close> is memoised
  once and never differs.)
\<close>

definition source_deps :: "session \<Rightarrow> string \<times> string option" where
  "source_deps s = (sourceType s, embyKey s)"

definition sort_deps :: "session \<Rightarrow> string \<times> string \<times> string" where
  "sort_deps s = (sortBy s, sortOrder s, sourceType s)"

definition fetch_deps ::
    "session \<Rightarrow> string \<times> string option \<times> int \<times> string \<times> string \<times> string \<times> string" where
  "fetch_deps s =
     (sourceType s, embyKey s, page s, selectedView s, xiaoyaPath s, sortBy s, sortOrder s)"

definition commit :: "runtime_config \<Rightarrow> session \<Rightarrow> session \<Rightarrow> session \<times> fetch_call option" where
  "commit cfg prev r =
     (let st0 = (if fetch_deps prev \<noteq> fetch_deps r then fetchVideos_cleanup r else r);
          st1 = (if source_deps prev \<noteq> source_deps r then reset_on_source st0 else st0);
          st2 = (if selectedView prev \<noteq> selectedView r then reset_on_view st1 else st1);
          st3 = (if sort_deps prev \<noteq> sort_deps r then reset_on_sort r st2 else st2)
      in if fetch_deps prev \<noteq> fetch_deps r then fetchVideos_start cfg r st3 else (st3, None))"

text \<open>
  The page with its calls in flight. After a handler or a continuation has written the
  state, React renders and commits, and renders and commits again for what the first pass
  wrote; a third pass has nothing to run (lemma \<open>commit_stable\<close>).
\<close>

record world =
  w_state :: session
  w_pending :: "fetch_call list"

definition settle :: "runtime_config \<Rightarrow> session \<Rightarrow> session \<Rightarrow> fetch_call list \<Rightarrow> world" where
  "settle cfg prev r pending =
     (let (s1, c1) = commit cfg prev r;
          (s2, c2) = commit cfg r s1
      in \<lparr> w_state = s2, w_pending = pending @ (case c1 of None \<Rightarrow> [] | Some fc \<Rightarrow> [fc]) @ (case c2 of None \<Rightarrow> [] | Some fc \<Rightarrow> [fc]) \<rparr>)"

text \<open>
  The first render: every effect runs, on the initial values; the effect that reads the URL
  comes first and marks the page initialised before the reset effects look at the mark.
  The later runs of that effect, after the page has rewritten its own URL, are left out.
\<close>

definition mount :: "runtime_config \<Rightarrow> string option \<Rightarrow> world" where
  "mount cfg urlSourceParam =
     (let r = initial_session;
          st1 = init_effect cfg urlSourceParam r;
          st2 = reset_on_source st1;
          st3 = reset_on_view st2;
          st4 = reset_on_sort r st3;
          (s1, c1) = fetchVideos_start cfg r st4;
          (s2, c2) = commit cfg r s1
      in \<lparr> w_state = s2, w_pending = (case c1 of None \<Rightarrow> [] | Some fc \<Rightarrow> [fc]) @ (case c2 of None \<Rightarrow> [] | Some fc \<Rightarrow> [fc]) \<rparr>)"

text \<open>
  What can happen to the page: the user picks a source, an Emby instance (or the list
  of instances arrives and the first is taken), a view, a sort field, the other sort
  direction or a path; the observer fires; or the awaits of the \<open>i\<close>-th call in flight
  end, the network having answered \<open>net\<close>.
\<close>

datatype action =
    SetSourceType string
  | SetEmbyKey string
  | SetSelectedView string
  | SelectSort string
  | ToggleSortOrder
  | SetXiaoyaPath string
  | Intersect bool
  | Arrive nat fetch_outcome

fun handler :: "action \<Rightarrow> world \<Rightarrow> world" where
  "handler (SetSourceType v) w = w\<lparr>w_state := (w_state w)\<lparr>sourceType := v\<rparr>\<rparr>"
| "handler (SetEmbyKey k) w = w\<lparr>w_state := (w_state w)\<lparr>embyKey := Some k\<rparr>\<rparr>"
| "handler (SetSelectedView v) w = w\<lparr>w_state := (w_state w)\<lparr>selectedView := v\<rparr>\<rparr>"
| "handler (SelectSort v) w = w\<lparr>w_state := (w_state w)\<lparr>sortBy := v\<rparr>\<rparr>"
| "handler ToggleSortOrder w = w\<lparr>w_state := toggleSortOrder (w_state w) (w_state w)\<rparr>"
| "handler (SetXiaoyaPath v) w = w\<lparr>w_state := (w_state w)\<lparr>xiaoyaPath := v\<rparr>\<rparr>"
| "handler (Intersect b) w = w\<lparr>w_state := observer_callback b (w_state w) (w_state w)\<rparr>"
| "handler (Arrive i net) w =
     (if i < length (w_pending w) then
        (let fc = w_pending w ! i
         in \<lparr> w_state = fetchVideos_resume fc (deliver (w_state w) fc net) (w_state w),
              w_pending = take i (w_pending w) @ drop (Suc i) (w_pending w) \<rparr>)
      else w)"

definition step :: "runtime_config \<Rightarrow> action \<Rightarrow> world \<Rightarrow> world" where
  "step cfg a w =
     (let w1 = handler a w in settle cfg (w_state w) (w_state w1) (w_pending w1))"

definition run :: "runtime_config \<Rightarrow> action list \<Rightarrow> world \<Rightarrow> world" where
  "run cfg as w = foldl (\<lambda>w a. step cfg a w) w as"

subsection \<open>Notions used to state the properties\<close>

text \<open>
  The selected source is switched off in the runtime configuration, or it is Emby and no
  instance key is set: the three guards of \<open>fetchVideos\<close>.
\<close>

definition source_disabled :: "runtime_config \<Rightarrow> session \<Rightarrow> bool" where
  "source_disabled cfg r =
     (sourceType r = ''openlist'' \<and> \<not> OPENLIST_ENABLED cfg \<or>
      sourceType r = ''emby'' \<and> (\<not> EMBY_ENABLED cfg \<or> falsy (embyKey r)) \<or>
      sourceType r = ''xiaoya'' \<and> \<not> XIAOYA_ENABLED cfg)"

text \<open>The values a full reset leaves.\<close>

definition fully_reset :: "session \<Rightarrow> bool" where
  "fully_reset s =
     (videos s = [] \<and> page s = 1 \<and> hasMore s \<and> error s = [] \<and> \<not> loading s \<and> \<not> loadingMore s)"

text \<open>
  The message a failed fetch surfaces: the \<open>error\<close> of the JSON, or the page's own
  message when the response is not \<open>ok\<close> or a promise rejects. \<open>None\<close>: the fetch did not
  fail (an \<open>AbortError\<close> is a cancellation, not a failure).
\<close>

fun fetch_failure :: "fetch_outcome \<Rightarrow> string option" where
  "fetch_failure (Json d) =
     (case data_error d of None \<Rightarrow> None | Some msg \<Rightarrow> if msg = [] then None else Some msg)"
| "fetch_failure NotOk = Some fetch_failed"
| "fetch_failure (Rejected e) = (if err_name e = ''AbortError'' then None else Some fetch_failed)"

text \<open>
  Invariants of the page. Every call in flight is aborted unless it is the current
  controller's, and the current controller exists; the page number is positive, the page
  is initialised, and a call is initial exactly when it asks for page 1.
\<close>

definition calls_ok :: "session \<Rightarrow> fetch_call list \<Rightarrow> bool" where
  "calls_ok st fcs =
     ((\<forall>fc \<in> set fcs.
         aborted st (fc_controller fc) \<or> abortControllerRef st = Some (fc_controller fc)) \<and>
      (\<forall>c. abortControllerRef st = Some c \<longrightarrow> c < length (signals st)))"

definition pages_ok :: "session \<Rightarrow> fetch_call list \<Rightarrow> bool" where
  "pages_ok st fcs =
     (1 \<le> page st \<and> isInitializedRef st \<and>
      (\<forall>fc \<in> set fcs. 1 \<le> fc_page fc \<and> fc_isInitial fc = (fc_page fc = 1)))"

text \<open>The three reset effects of a pass, in order.\<close>

definition resets :: "session \<Rightarrow> session \<Rightarrow> session \<Rightarrow> session" where
  "resets prev r st0 =
     (let st1 = (if source_deps prev \<noteq> source_deps r then reset_on_source st0 else st0);
          st2 = (if selectedView prev \<noteq> selectedView r then reset_on_view st1 else st1)
      in if sort_deps prev \<noteq> sort_deps r then reset_on_sort r st2 else st2)"

section \<open>A media server and a browsing session\<close>

text \<open>
  A media server that holds the items \<open>lib\<close> and answers a query with the slice asked
  for and the size of the library, behind a cache that holds nothing.
\<close>

definition library_client :: "emby_item list \<Rightarrow> emby_client" where
  "library_client lib =
     \<lparr> getItems =
         (\<lambda>q. case q_StartIndex q of
                None \<Rightarrow> Inl (JsError ''Error'' ''Bad Request'')
              | Some i \<Rightarrow>
                  (case q_Limit q of
                     None \<Rightarrow> Inl (JsError ''Error'' ''Bad Request'')
                   | Some n \<Rightarrow>
                       Inr \<lparr> res_Items = take (nat n) (drop (nat i) lib),
                             res_TotalRecordCount = int (length lib) \<rparr>)),
       getImageUrl = (\<lambda>i k. ''/Items/'' @ i @ ''/Images/'' @ k) \<rparr>"

definition library_backend :: "emby_item list \<Rightarrow> backend" where
  "library_backend lib =
     \<lparr> getCachedEmbyList = (\<lambda>p ps pid k. None),
       getClient = (\<lambda>k. Inr (library_client lib)) \<rparr>"

text \<open>The endpoint's JSON as \<open>fetchVideos\<close> reads it: it has no \<open>page\<close> key.\<close>

definition data_of_response :: "response \<Rightarrow> data" where
  "data_of_response r =
     \<lparr> data_error = resp_error r,
       data_list = Some (resp_list r),
       data_page = None,
       data_totalPages = resp_totalPages r,
       data_folders = None,
       data_files = None \<rparr>"

text \<open>The first call in flight, if it is to the Emby endpoint, is answered by \<open>GET\<close>.\<close>

definition respond :: "backend \<Rightarrow> runtime_config \<Rightarrow> world \<Rightarrow> world" where
  "respond be cfg w =
     (case w_pending w of
        [] \<Rightarrow> w
      | fc # fcs \<Rightarrow>
          (case fc_endpoint fc of
             EmbyList rq \<Rightarrow> step cfg (Arrive 0 (Json (data_of_response (fst (GET be rq))))) w
           | _ \<Rightarrow> w))"

definition emby_only :: runtime_config where
  "emby_only = \<lparr> OPENLIST_ENABLED = False, EMBY_ENABLED = True, XIAOYA_ENABLED = False \<rparr>"

text \<open>
  The page is opened with only Emby configured and the instance \<open>key\<close> is taken; then the
  pages are loaded one after the other, the observer firing after each response.
\<close>

definition opened :: "string \<Rightarrow> world" where
  "opened key = step emby_only (SetEmbyKey key) (mount emby_only None)"

fun pages_loaded :: "backend \<Rightarrow> string \<Rightarrow> nat \<Rightarrow> world" where
  "pages_loaded be key 0 = opened key"
| "pages_loaded be key (Suc 0) = respond be emby_only (opened key)"
| "pages_loaded be key (Suc (Suc k)) =
     respond be emby_only (step emby_only (Intersect True) (pages_loaded be key (Suc k)))"

text \<open>The session at rest on instance \<open>key\<close> with \<open>k\<close> pages loaded.\<close>

definition browsing :: "string \<Rightarrow> video list \<Rightarrow> nat \<Rightarrow> bool \<Rightarrow> session" where
  "browsing key vs k hm =
     \<lparr> sourceType = ''emby'',
       embyKey = Some key,
       videos = vs,
       loading = False,
       loadingMore = False,
       error = [],
       page = int k,
       hasMore = hm,
       selectedView = ''all'',
       sortBy = ''SortName'',
       sortOrder = ''Ascending'',
       xiaoyaPath = ''/'',
       xiaoyaFolders = [],
       xiaoyaFiles = [],
       isFetchingRef = False,
       abortControllerRef = Some (k - 1),
       isInitializedRef = True,
       signals = replicate (k - 1) True @ [False] \<rparr>"

text \<open>The same session while page \<open>k\<close> is in flight, and the call for it.\<close>

definition inflight :: "string \<Rightarrow> video list \<Rightarrow> nat \<Rightarrow> session" where
  "inflight key vs k =
     (browsing key vs k True)\<lparr>loading := (k = 1), loadingMore := (k \<noteq> 1), isFetchingRef := True\<rparr>"

definition emby_call :: "string \<Rightarrow> nat \<Rightarrow> fetch_call" where
  "emby_call key k =
     \<lparr> fc_controller = k - 1,
       fc_isInitial = (k = 1),
       fc_sourceType = ''emby'',
       fc_page = int k,
       fc_endpoint =
         EmbyList
           \<lparr> param_page = Some (toString (int k)),
             param_pageSize = Some (toString pageSize),
             param_parentId = None,
             param_embyKey = Some key,
             param_sortBy = Some ''SortName'',
             param_sortOrder = Some ''Ascending'' \<rparr> \<rparr>"

definition page_videos :: "emby_item list \<Rightarrow> nat \<Rightarrow> video list" where
  "page_videos lib k = map (normalize_item (library_client lib)) (take 20 (drop (20 * (k - 1)) lib))"

text \<open>The number of pages as the page takes it from the response: \<open>data.totalPages || 1\<close>.\<close>

definition pages_seen :: "emby_item list \<Rightarrow> int" where
  "pages_seen lib = num_or (Math_ceil_div (int (length lib)) (Some 20)) 1"

section \<open>Concrete inputs\<close>

definition demo_items :: "emby_item list" where
  "demo_items =
     [\<lparr> item_Id = ''a1'', item_Name = ''Alien'', item_ProductionYear = Some 1979,
        item_CommunityRating = Some (17 / 2), item_Type = ''Movie'' \<rparr>,
      \<lparr> item_Id = ''b2'', item_Name = ''Dark'', item_ProductionYear = None,
        item_CommunityRating = None, item_Type = ''Series'' \<rparr>,
      \<lparr> item_Id = ''c3'', item_Name = ''Boxed'', item_ProductionYear = Some 2001,
        item_CommunityRating = Some 0, item_Type = ''BoxSet'' \<rparr>]"

definition demo_client :: emby_client where
  "demo_client =
     \<lparr> getItems = (\<lambda>q. if q_ParentId q = Some ''gone''
                       then Inl (JsError ''Error'' ''Not Found'')
                       else Inr \<lparr> res_Items = demo_items, res_TotalRecordCount = 45 \<rparr>),
       getImageUrl = (\<lambda>i k. ''/img/'' @ i @ ''/'' @ k) \<rparr>"

definition demo_backend :: backend where
  "demo_backend =
     \<lparr> getCachedEmbyList = (\<lambda>p ps pid k. None),
       getClient = (\<lambda>k. if k = Some ''down'' then Inl (JsError ''Error'' ''no such server'')
                        else Inr demo_client) \<rparr>"

definition demo_request :: request where
  "demo_request =
     \<lparr> param_page = Some ''2'', param_pageSize = None, param_parentId = None,
       param_embyKey = Some ''main'', param_sortBy = None, param_sortOrder = None \<rparr>"


definition demo_down_request :: request where
  "demo_down_request = demo_request\<lparr>param_embyKey := Some ''down''\<rparr>"

definition demo_video :: video where
  "demo_video =
     \<lparr> video_id = ''a1'', video_folder = None, video_tmdbId = None, video_title = ''Alien'',
       video_poster = ''/img/a1/Primary'', video_releaseDate = None, video_year = Some ''1979'',
       video_overview = None, video_voteAverage = None, video_rating = Some 8,
       video_mediaType = movie \<rparr>"

definition all_enabled :: runtime_config where
  "all_enabled = \<lparr> OPENLIST_ENABLED = True, EMBY_ENABLED = True, XIAOYA_ENABLED = True \<rparr>"




definition demo_data :: data where
  "demo_data =
     \<lparr> data_error = None, data_list = Some [demo_video], data_page = None,
       data_totalPages = Some 3, data_folders = None, data_files = None \<rparr>"

text \<open>
  The page opened on the Emby server \<open>main\<close> with two pages loaded: the first render, the
  answer to the first page, the observer reaching the end of the list, and the answer to
  the second page.
\<close>

definition emby_two_pages :: world where
  "emby_two_pages =
     run all_enabled [Arrive 1 (Json demo_data), Intersect True, Arrive 1 (Json demo_data)]
       (mount all_enabled (Some ''emby:main''))"

definition demo_library :: "emby_item list" where
  "demo_library =
     map (\<lambda>n. \<lparr> item_Id = toString (int n), item_Name = ''Episode'',
                 item_ProductionYear = Some 2020, item_CommunityRating = None,
                 item_Type = ''Series'' \<rparr>) [0..<45]"

section \<open>Properties of the listing endpoint\<close>

subsection \<open>Auxiliary facts\<close>

lemma GET_fetch_cases:
  "GET_fetch be rq =
     (case getClient be (req_embyKey rq) of
        Inl e \<Rightarrow> (Inl e, [GetClient (req_embyKey rq)])
      | Inr client \<Rightarrow>
          (case getItems client (items_query_of rq) of
             Inl e \<Rightarrow> (Inl e, [GetClient (req_embyKey rq), GetItems (items_query_of rq)])
           | Inr result \<Rightarrow>
               (Inr (success_response rq client result),
                 [GetClient (req_embyKey rq), GetItems (items_query_of rq)] @
                 (if isDefaultSort rq
                  then [cache_key_write rq (success_response rq client result)] else []))))"
  by (simp add: GET_fetch_def Let_def split: sum.splits)




lemma GET_fst:
  "fst (GET be rq) = (case fst (GET_try be rq) of Inr r \<Rightarrow> r | Inl e \<Rightarrow> failure_response rq e)"
  by (cases "GET_try be rq") (simp add: GET_def split: sum.splits)

lemma GET_try_fst:
  "fst (GET_try be rq) =
     (if isDefaultSort rq then
        (case cache_lookup be rq of Some c \<Rightarrow> Inr c | None \<Rightarrow> fst (GET_fetch be rq))
      else fst (GET_fetch be rq))"
  by (simp add: GET_try_def split: option.splits prod.splits)

text \<open>The response when the cache does not answer and both upstream calls return.\<close>

lemma GET_fresh:
  assumes "isDefaultSort rq \<longrightarrow> cache_lookup be rq = None"
    and "getClient be (req_embyKey rq) = Inr client"
    and "getItems client (items_query_of rq) = Inr result"
  shows "fst (GET be rq) = success_response rq client result"
  using assms by (auto simp: GET_fst GET_try_fst GET_fetch_cases)

lemma emby_list_failed_nonempty: "emby_list_failed \<noteq> []"
  by (simp add: emby_list_failed_def)

lemma Math_ceil_div_int:
  "Math_ceil_div t (Some s) = Some (- ((- t) div s))" if "s \<noteq> 0"
proof -
  have "- (of_int t / of_int s :: rat) = of_int (- t) / of_int s"
    by simp
  then have "\<lfloor>- (of_int t / of_int s :: rat)\<rfloor> = (- t) div s"
    by (simp only: floor_divide_of_int_eq)
  then show ?thesis
    using that by (simp add: Math_ceil_div_def ceiling_def)
qed

text \<open>Facts about the concrete inputs.\<close>

lemma demo_request_facts:
  "isDefaultSort demo_request"
  "cache_lookup demo_backend demo_request = None"
  "getClient demo_backend (req_embyKey demo_request) = Inr demo_client"
  "getItems demo_client (items_query_of demo_request) =
     Inr \<lparr> res_Items = demo_items, res_TotalRecordCount = 45 \<rparr>"
  "req_page demo_request = Some 2"
  "req_pageSize demo_request = Some 20"
  by (simp_all add: isDefaultSort_def req_sortBy_def req_sortOrder_def or_default_def
      demo_request_def cache_lookup_def demo_backend_def req_embyKey_def or_undefined_def
      demo_client_def items_query_of_def req_parentId_def req_page_def req_pageSize_def
      parseInt_def strip_sign_def strip_radix_def is_space_def digit_value_def)





lemma demo_down_request_facts:
  "isDefaultSort demo_down_request"
  "cache_lookup demo_backend demo_down_request = None"
  "getClient demo_backend (req_embyKey demo_down_request) =
     Inl (JsError ''Error'' ''no such server'')"
  "req_page demo_down_request = Some 2"
  by (simp_all add: isDefaultSort_def req_sortBy_def req_sortOrder_def or_default_def
      demo_request_def demo_down_request_def cache_lookup_def demo_backend_def
      req_embyKey_def or_undefined_def req_page_def
      parseInt_def strip_sign_def strip_radix_def is_space_def digit_value_def)

subsection \<open>The cache is used for the default sort only\<close>



subsection \<open>One response shape, also for failures\<close>

text \<open>
  Claim C3. \<open>GET\<close> answers every request with a response object; no exception leaves it.
  When the \<open>try\<close> block throws an error \<open>e\<close> (which it does exactly when the cache did not
  answer and one of the two upstream calls threw), the response is
  \<open>{error, list: [], totalPages: 0, currentPage: page, total: 0}\<close> with a non-empty \<open>error\<close>
  that ends in the message of \<open>e\<close>. Otherwise the response is the cached one, or it is
  \<open>{success: true, list, totalPages, currentPage: page, total}\<close> built from the upstream
  result. Both shapes carry \<open>list\<close>, \<open>totalPages\<close>, \<open>currentPage\<close> and \<open>total\<close>.
\<close>

theorem GET_uniform_response:
  "(\<forall>e. fst (GET_try be rq) = Inl e \<longrightarrow>
      fst (GET be rq) =
        \<lparr> resp_success = None,
          resp_error = Some (emby_list_failed @ err_message e),
          resp_list = [],
          resp_totalPages = Some 0,
          resp_currentPage = req_page rq,
          resp_total = 0 \<rparr> \<and>
      resp_error (fst (GET be rq)) \<noteq> Some [] \<and>
      \<not> (isDefaultSort rq \<and> cache_lookup be rq \<noteq> None) \<and>
      (getClient be (req_embyKey rq) = Inl e \<or>
       (\<exists>client. getClient be (req_embyKey rq) = Inr client \<and>
          getItems client (items_query_of rq) = Inl e))) \<and>
   (\<forall>r. fst (GET_try be rq) = Inr r \<longrightarrow>
      fst (GET be rq) = r \<and>
      (isDefaultSort rq \<and> cache_lookup be rq = Some r \<or>
       (\<exists>client result.
          getClient be (req_embyKey rq) = Inr client \<and>
          getItems client (items_query_of rq) = Inr result \<and>
          r = \<lparr> resp_success = Some True,
                resp_error = None,
                resp_list = map (normalize_item client) (res_Items result),
                resp_totalPages = Math_ceil_div (res_TotalRecordCount result) (req_pageSize rq),
                resp_currentPage = req_page rq,
                resp_total = res_TotalRecordCount result \<rparr>)))"
proof (intro conjI allI impI)
  fix e
  assume e: "fst (GET_try be rq) = Inl e"
  show "fst (GET be rq) =
        \<lparr> resp_success = None,
          resp_error = Some (emby_list_failed @ err_message e),
          resp_list = [],
          resp_totalPages = Some 0,
          resp_currentPage = req_page rq,
          resp_total = 0 \<rparr>"
    by (simp add: GET_fst e failure_response_def)
  show "resp_error (fst (GET be rq)) \<noteq> Some []"
    by (simp add: GET_fst e failure_response_def emby_list_failed_nonempty)
  show "\<not> (isDefaultSort rq \<and> cache_lookup be rq \<noteq> None)"
    using e by (auto simp: GET_try_fst split: option.splits if_splits)
  show "getClient be (req_embyKey rq) = Inl e \<or>
       (\<exists>client. getClient be (req_embyKey rq) = Inr client \<and>
          getItems client (items_query_of rq) = Inl e)"
    using e by (auto simp: GET_try_fst GET_fetch_cases split: option.splits sum.splits if_splits)
next
  fix r
  assume r: "fst (GET_try be rq) = Inr r"
  show "fst (GET be rq) = r"
    by (simp add: GET_fst r)
  show "isDefaultSort rq \<and> cache_lookup be rq = Some r \<or>
       (\<exists>client result.
          getClient be (req_embyKey rq) = Inr client \<and>
          getItems client (items_query_of rq) = Inr result \<and>
          r = \<lparr> resp_success = Some True,
                resp_error = None,
                resp_list = map (normalize_item client) (res_Items result),
                resp_totalPages = Math_ceil_div (res_TotalRecordCount result) (req_pageSize rq),
                resp_currentPage = req_page rq,
                resp_total = res_TotalRecordCount result \<rparr>)"
    using r
    by (auto simp: GET_try_fst GET_fetch_cases success_response_def
        split: option.splits sum.splits if_splits)
qed

theorem GET_uniform_response_witness:
  "fst (GET_try demo_backend demo_down_request) = Inl (JsError ''Error'' ''no such server'') \<and>
   fst (GET demo_backend demo_down_request) =
     \<lparr> resp_success = None,
       resp_error = Some (emby_list_failed @ ''no such server''),
       resp_list = [],
       resp_totalPages = Some 0,
       resp_currentPage = Some 2,
       resp_total = 0 \<rparr> \<and>
   fst (GET_try demo_backend demo_request) =
     Inr (success_response demo_request demo_client
            \<lparr> res_Items = demo_items, res_TotalRecordCount = 45 \<rparr>) \<and>
   resp_success (fst (GET demo_backend demo_request)) = Some True \<and>
   resp_total (fst (GET demo_backend demo_request)) = 45"
proof -
  have t1: "fst (GET_try demo_backend demo_down_request) = Inl (JsError ''Error'' ''no such server'')"
    by (simp add: GET_try_fst GET_fetch_cases demo_down_request_facts)
  have t2: "fst (GET_try demo_backend demo_request) =
     Inr (success_response demo_request demo_client
            \<lparr> res_Items = demo_items, res_TotalRecordCount = 45 \<rparr>)"
    by (simp add: GET_try_fst GET_fetch_cases demo_request_facts)
  have a: "fst (GET demo_backend demo_down_request) =
     \<lparr> resp_success = None,
       resp_error = Some (emby_list_failed @ ''no such server''),
       resp_list = [],
       resp_totalPages = Some 0,
       resp_currentPage = Some 2,
       resp_total = 0 \<rparr>"
    using GET_uniform_response [of demo_backend demo_down_request] t1
    by (simp add: demo_down_request_facts)
  have b: "fst (GET demo_backend demo_request) =
      success_response demo_request demo_client \<lparr> res_Items = demo_items, res_TotalRecordCount = 45 \<rparr>"
    using GET_uniform_response [of demo_backend demo_request] t2 by simp
  show ?thesis
    using t1 t2 a b by (simp add: success_response_def)
qed

subsection \<open>Normalisation of an item\<close>

text \<open>
  Claim C9. An item without a community rating is given the rating \<open>0\<close> and an item
  without a production year the year \<open>''\<close>; a rating and a year that are there are kept
  (the year as its decimal string). The response does not fail for such items: when the
  response is fetched, it is the success response and its list has one entry for each item
  of the upstream result.
\<close>

theorem missing_rating_and_year:
  "(item_CommunityRating item = None \<longrightarrow> video_rating (normalize_item client item) = Some 0) \<and>
   (item_ProductionYear item = None \<longrightarrow> video_year (normalize_item client item) = Some []) \<and>
   (\<forall>r. item_CommunityRating item = Some r \<longrightarrow> video_rating (normalize_item client item) = Some r) \<and>
   (\<forall>y. item_ProductionYear item = Some y \<longrightarrow>
      video_year (normalize_item client item) = Some (toString y)) \<and>
   ((isDefaultSort rq \<longrightarrow> cache_lookup be rq = None) \<and>
    getClient be (req_embyKey rq) = Inr client \<and>
    getItems client (items_query_of rq) = Inr result \<longrightarrow>
      resp_success (fst (GET be rq)) = Some True \<and>
      resp_error (fst (GET be rq)) = None \<and>
      resp_list (fst (GET be rq)) = map (normalize_item client) (res_Items result))"
  by (auto simp: normalize_item_def GET_fresh success_response_def)

theorem missing_rating_and_year_witness:
  "item_CommunityRating (demo_items ! 1) = None \<and>
   item_ProductionYear (demo_items ! 1) = None \<and>
   video_rating (normalize_item demo_client (demo_items ! 1)) = Some 0 \<and>
   video_year (normalize_item demo_client (demo_items ! 1)) = Some [] \<and>
   item_ProductionYear (demo_items ! 0) = Some 1979 \<and>
   video_year (normalize_item demo_client (demo_items ! 0)) = Some (toString 1979) \<and>
   video_rating (normalize_item demo_client (demo_items ! 0)) = Some (17 / 2) \<and>
   resp_error (fst (GET demo_backend demo_request)) = None \<and>
   length (resp_list (fst (GET demo_backend demo_request))) = 3"
proof -
  have i: "item_CommunityRating (demo_items ! 1) = None" "item_ProductionYear (demo_items ! 1) = None"
    "item_ProductionYear (demo_items ! 0) = Some 1979"
    "item_CommunityRating (demo_items ! 0) = Some (17 / 2)"
    by (simp_all add: demo_items_def)
  have l: "length demo_items = 3"
    by (simp add: demo_items_def)
  show ?thesis
    using missing_rating_and_year [of "demo_items ! 1" demo_client demo_request demo_backend
        "\<lparr> res_Items = demo_items, res_TotalRecordCount = 45 \<rparr>"]
      missing_rating_and_year [of "demo_items ! 0" demo_client demo_request demo_backend
        "\<lparr> res_Items = demo_items, res_TotalRecordCount = 45 \<rparr>"]
      i l demo_request_facts
    by simp
qed

text \<open>
  Claim C10. The media type of a normalised item is \<open>movie\<close> exactly when the \<open>Type\<close> of
  the backend item is \<open>Movie\<close>, and \<open>tv\<close> for every other \<open>Type\<close>; so it is for every entry
  of a fetched response.
\<close>

theorem mediaType_of_Type:
  "(video_mediaType (normalize_item client item) = movie \<longleftrightarrow> item_Type item = ''Movie'') \<and>
   (video_mediaType (normalize_item client item) = tv \<longleftrightarrow> item_Type item \<noteq> ''Movie'') \<and>
   ((isDefaultSort rq \<longrightarrow> cache_lookup be rq = None) \<and>
    getClient be (req_embyKey rq) = Inr client \<and>
    getItems client (items_query_of rq) = Inr result \<longrightarrow>
      map video_mediaType (resp_list (fst (GET be rq))) =
        map (\<lambda>i. if item_Type i = ''Movie'' then movie else tv) (res_Items result))"
  by (auto simp: normalize_item_def GET_fresh success_response_def)

theorem mediaType_of_Type_witness:
  "item_Type (demo_items ! 2) = ''BoxSet'' \<and>
   video_mediaType (normalize_item demo_client (demo_items ! 2)) = tv \<and>
   map video_mediaType (resp_list (fst (GET demo_backend demo_request))) = [movie, tv, tv]"
proof -
  have i: "item_Type (demo_items ! 2) = ''BoxSet''"
    "map (\<lambda>i. if item_Type i = ''Movie'' then movie else tv) demo_items = [movie, tv, tv]"
    by (simp_all add: demo_items_def)
  show ?thesis
    using mediaType_of_Type [of demo_client "demo_items ! 2" demo_request demo_backend
        "\<lparr> res_Items = demo_items, res_TotalRecordCount = 45 \<rparr>"]
      i demo_request_facts
    by simp
qed

section \<open>Properties of the page\<close>

subsection \<open>What the effects leave unchanged\<close>

lemma abort_fields [simp]:
  "abortControllerRef (abort c st) = abortControllerRef st"
  "length (signals (abort c st)) = length (signals st)"
  "videos (abort c st) = videos st"
  "hasMore (abort c st) = hasMore st"
  "error (abort c st) = error st"
  "page (abort c st) = page st"
  "loading (abort c st) = loading st"
  "loadingMore (abort c st) = loadingMore st"
  "isInitializedRef (abort c st) = isInitializedRef st"
  "sourceType (abort c st) = sourceType st"
  "embyKey (abort c st) = embyKey st"
  "selectedView (abort c st) = selectedView st"
  "xiaoyaPath (abort c st) = xiaoyaPath st"
  "sortBy (abort c st) = sortBy st"
  "sortOrder (abort c st) = sortOrder st"
  by (simp_all add: abort_def)

lemma aborted_abort:
  "aborted (abort c st) c' = (aborted st c' \<or> (c' = c \<and> c < length (signals st)))"
  by (cases "c' = c") (auto simp: aborted_def abort_def)

lemma cleanup_fields [simp]:
  "abortControllerRef (fetchVideos_cleanup st) = abortControllerRef st"
  "length (signals (fetchVideos_cleanup st)) = length (signals st)"
  "videos (fetchVideos_cleanup st) = videos st"
  "hasMore (fetchVideos_cleanup st) = hasMore st"
  "error (fetchVideos_cleanup st) = error st"
  "page (fetchVideos_cleanup st) = page st"
  "loading (fetchVideos_cleanup st) = loading st"
  "loadingMore (fetchVideos_cleanup st) = loadingMore st"
  "isInitializedRef (fetchVideos_cleanup st) = isInitializedRef st"
  "sourceType (fetchVideos_cleanup st) = sourceType st"
  "embyKey (fetchVideos_cleanup st) = embyKey st"
  "selectedView (fetchVideos_cleanup st) = selectedView st"
  "xiaoyaPath (fetchVideos_cleanup st) = xiaoyaPath st"
  "sortBy (fetchVideos_cleanup st) = sortBy st"
  "sortOrder (fetchVideos_cleanup st) = sortOrder st"
  by (simp_all add: fetchVideos_cleanup_def split: option.splits)

lemma fetchVideos_start_disabled:
  "source_disabled cfg r \<Longrightarrow>
   fetchVideos_start cfg r st = ((fetchVideos_cleanup st)\<lparr>loading := False\<rparr>, None)"
  by (auto simp: fetchVideos_start_def source_disabled_def fetchVideos_cleanup_def Let_def)

lemma fetchVideos_start_enabled:
  "\<not> source_disabled cfg r \<Longrightarrow>
   fetchVideos_start cfg r st =
     (let st1 = fetchVideos_cleanup st;
          c = length (signals st1);
          st2 = st1\<lparr>signals := signals st1 @ [False],
                    abortControllerRef := Some c,
                    isFetchingRef := True\<rparr>;
          st3 = (if page r = 1 then st2\<lparr>loading := True\<rparr> else st2\<lparr>loadingMore := True\<rparr>)
      in (st3\<lparr>error := []\<rparr>,
          Some \<lparr> fc_controller = c,
                 fc_isInitial = (page r = 1),
                 fc_sourceType = sourceType r,
                 fc_page = page r,
                 fc_endpoint = endpoint_of r \<rparr>))"
  by (auto simp: fetchVideos_start_def source_disabled_def fetchVideos_cleanup_def Let_def)

lemma start_fields:
  "sourceType (fst (fetchVideos_start cfg r st)) = sourceType st"
  "embyKey (fst (fetchVideos_start cfg r st)) = embyKey st"
  "page (fst (fetchVideos_start cfg r st)) = page st"
  "selectedView (fst (fetchVideos_start cfg r st)) = selectedView st"
  "xiaoyaPath (fst (fetchVideos_start cfg r st)) = xiaoyaPath st"
  "sortBy (fst (fetchVideos_start cfg r st)) = sortBy st"
  "sortOrder (fst (fetchVideos_start cfg r st)) = sortOrder st"
  "isInitializedRef (fst (fetchVideos_start cfg r st)) = isInitializedRef st"
  "videos (fst (fetchVideos_start cfg r st)) = videos st"
  "hasMore (fst (fetchVideos_start cfg r st)) = hasMore st"
  "error (fst (fetchVideos_start cfg r st)) = (if source_disabled cfg r then error st else [])"
  by (cases "source_disabled cfg r";
      simp add: fetchVideos_start_disabled fetchVideos_start_enabled Let_def)+

lemma start_none:
  "snd (fetchVideos_start cfg r st) = None \<Longrightarrow>
   fetchVideos_start cfg r st = ((fetchVideos_cleanup st)\<lparr>loading := False\<rparr>, None)"
  by (cases "source_disabled cfg r")
    (simp_all add: fetchVideos_start_disabled fetchVideos_start_enabled Let_def)

lemma start_some:
  "snd (fetchVideos_start cfg r st) = Some fc \<Longrightarrow>
   fc_controller fc = length (signals st) \<and>
   signals (fst (fetchVideos_start cfg r st)) = signals (fetchVideos_cleanup st) @ [False] \<and>
   abortControllerRef (fst (fetchVideos_start cfg r st)) = Some (length (signals st)) \<and>
   fc_page fc = page r \<and> fc_isInitial fc = (page r = 1)"
  by (cases "source_disabled cfg r")
    (auto simp: fetchVideos_start_disabled fetchVideos_start_enabled Let_def)

lemma reset_fields [simp]:
  "signals (reset_on_source st) = signals st"
  "abortControllerRef (reset_on_source st) = abortControllerRef st"
  "isInitializedRef (reset_on_source st) = isInitializedRef st"
  "signals (reset_on_view st) = signals st"
  "abortControllerRef (reset_on_view st) = abortControllerRef st"
  "isInitializedRef (reset_on_view st) = isInitializedRef st"
  "signals (reset_on_sort r st) = signals st"
  "abortControllerRef (reset_on_sort r st) = abortControllerRef st"
  "isInitializedRef (reset_on_sort r st) = isInitializedRef st"
  by (simp_all add: reset_on_source_def reset_on_view_def reset_on_sort_def)

lemma resets_fields:
  "signals (resets prev r st) = signals st"
  "abortControllerRef (resets prev r st) = abortControllerRef st"
  "isInitializedRef (resets prev r st) = isInitializedRef st"
  "sourceType (resets prev r st) = sourceType st"
  "embyKey (resets prev r st) = embyKey st"
  "xiaoyaPath (resets prev r st) = xiaoyaPath st"
  "sortBy (resets prev r st) = sortBy st"
  "sortOrder (resets prev r st) = sortOrder st"
  "page (resets prev r st) =
     (if isInitializedRef st \<and>
         (source_deps prev \<noteq> source_deps r \<or> selectedView prev \<noteq> selectedView r \<or>
          (sort_deps prev \<noteq> sort_deps r \<and> sourceType r = ''emby''))
      then 1 else page st)"
  "selectedView (resets prev r st) =
     (if isInitializedRef st \<and> source_deps prev \<noteq> source_deps r then ''all''
      else selectedView st)"
  by (simp_all add: resets_def Let_def reset_on_source_def reset_on_view_def reset_on_sort_def)

lemma resets_cleared:
  assumes "isInitializedRef st"
    and "source_deps prev \<noteq> source_deps r \<or> selectedView prev \<noteq> selectedView r \<or>
         (sort_deps prev \<noteq> sort_deps r \<and> sourceType r = ''emby'')"
  shows "videos (resets prev r st) = [] \<and> page (resets prev r st) = 1 \<and>
         hasMore (resets prev r st) \<and> error (resets prev r st) = []"
  using assms
  by (auto simp: resets_def Let_def reset_on_source_def reset_on_view_def reset_on_sort_def)

lemma commit_resets:
  "commit cfg prev r =
     (if fetch_deps prev \<noteq> fetch_deps r
      then fetchVideos_start cfg r (resets prev r (fetchVideos_cleanup r))
      else (resets prev r r, None))"
  by (simp add: commit_def resets_def Let_def)

lemma commit_fields:
  "sourceType (fst (commit cfg prev r)) = sourceType r"
  "embyKey (fst (commit cfg prev r)) = embyKey r"
  "xiaoyaPath (fst (commit cfg prev r)) = xiaoyaPath r"
  "sortBy (fst (commit cfg prev r)) = sortBy r"
  "sortOrder (fst (commit cfg prev r)) = sortOrder r"
  "isInitializedRef (fst (commit cfg prev r)) = isInitializedRef r"
  "page (fst (commit cfg prev r)) =
     (if isInitializedRef r \<and>
         (source_deps prev \<noteq> source_deps r \<or> selectedView prev \<noteq> selectedView r \<or>
          (sort_deps prev \<noteq> sort_deps r \<and> sourceType r = ''emby''))
      then 1 else page r)"
  "selectedView (fst (commit cfg prev r)) =
     (if isInitializedRef r \<and> source_deps prev \<noteq> source_deps r then ''all''
      else selectedView r)"
  by (auto simp add: commit_resets start_fields resets_fields)

lemma commit_unchanged: "fetch_deps prev = fetch_deps r \<Longrightarrow> commit cfg prev r = (r, None)"
  by (simp add: commit_def fetch_deps_def source_deps_def sort_deps_def)

text \<open>After two passes nothing is left to run.\<close>

lemma commit_stable:
  "commit cfg (fst (commit cfg prev r)) (fst (commit cfg r (fst (commit cfg prev r)))) =
     (fst (commit cfg r (fst (commit cfg prev r))), None)"
proof (rule commit_unchanged)
  show "fetch_deps (fst (commit cfg prev r)) = fetch_deps (fst (commit cfg r (fst (commit cfg prev r))))"
    by (simp add: fetch_deps_def commit_fields source_deps_def sort_deps_def)
qed

lemma settle_unchanged:
  "fetch_deps prev = fetch_deps r \<Longrightarrow> settle cfg prev r fcs = \<lparr> w_state = r, w_pending = fcs \<rparr>"
  by (simp add: settle_def commit_unchanged)

lemma resume_fields [simp]:
  "signals (fetchVideos_resume fc out st) = signals st"
  "abortControllerRef (fetchVideos_resume fc out st) = abortControllerRef st"
  "page (fetchVideos_resume fc out st) = page st"
  "isInitializedRef (fetchVideos_resume fc out st) = isInitializedRef st"
  "fetch_deps (fetchVideos_resume fc out st) = fetch_deps st"
  by (simp_all add: fetchVideos_resume_def fetchVideos_finally_def fetchVideos_catch_def
      fetchVideos_data_def fetchVideos_success_def fetch_deps_def Let_def
      split: fetch_outcome.splits option.splits)

text \<open>The state after the awaits of a call in flight have ended.\<close>

lemma step_arrive:
  "i < length (w_pending w) \<Longrightarrow>
   w_state (step cfg (Arrive i net) w) =
     fetchVideos_resume (w_pending w ! i) (deliver (w_state w) (w_pending w ! i) net) (w_state w)"
  by (simp add: step_def Let_def settle_unchanged)

lemma resume_aborted:
  "aborted st (fc_controller fc) \<Longrightarrow> fetchVideos_resume fc (deliver st fc net) st = st"
  by (simp add: deliver_def fetchVideos_resume_def fetchVideos_catch_def fetchVideos_finally_def
      abort_error_def)

lemma deliver_live: "\<not> aborted st (fc_controller fc) \<Longrightarrow> deliver st fc net = net"
  by (simp add: deliver_def)

subsection \<open>Invariants\<close>

lemma calls_ok_cong:
  "signals st' = signals st \<Longrightarrow> abortControllerRef st' = abortControllerRef st \<Longrightarrow>
   calls_ok st' fcs = calls_ok st fcs"
  by (simp add: calls_ok_def aborted_def)

lemma calls_ok_cleanup:
  "calls_ok st fcs \<Longrightarrow>
   calls_ok (fetchVideos_cleanup st) fcs \<and>
   (\<forall>fc \<in> set fcs. aborted (fetchVideos_cleanup st) (fc_controller fc))"
  by (auto simp: calls_ok_def fetchVideos_cleanup_def aborted_abort split: option.splits)

lemma aborted_append:
  "signals st' = signals st @ [False] \<Longrightarrow> aborted st c \<Longrightarrow> aborted st' c"
  by (simp add: aborted_def nth_append)

lemma calls_ok_start:
  assumes "calls_ok st fcs"
  shows "calls_ok (fst (fetchVideos_start cfg r st))
           (fcs @ (case snd (fetchVideos_start cfg r st) of None \<Rightarrow> [] | Some fc \<Rightarrow> [fc]))"
proof (cases "snd (fetchVideos_start cfg r st)")
  case None
  have "calls_ok ((fetchVideos_cleanup st)\<lparr>loading := False\<rparr>) fcs = calls_ok (fetchVideos_cleanup st) fcs"
    by (rule calls_ok_cong) simp_all
  with None assms show ?thesis
    by (simp add: start_none calls_ok_cleanup)
next
  case (Some fc)
  note s = start_some [OF Some]
  have old: "\<forall>fc' \<in> set fcs. aborted (fst (fetchVideos_start cfg r st)) (fc_controller fc')"
    using calls_ok_cleanup [OF assms] s by (auto intro: aborted_append)
  show ?thesis
    using old s Some by (auto simp: calls_ok_def)
qed

lemma calls_ok_commit:
  assumes "calls_ok r fcs"
  shows "calls_ok (fst (commit cfg prev r))
           (fcs @ (case snd (commit cfg prev r) of None \<Rightarrow> [] | Some fc \<Rightarrow> [fc]))"
proof (cases "fetch_deps prev \<noteq> fetch_deps r")
  case True
  have "calls_ok (resets prev r (fetchVideos_cleanup r)) fcs = calls_ok (fetchVideos_cleanup r) fcs"
    by (rule calls_ok_cong) (simp_all add: resets_fields)
  then have "calls_ok (resets prev r (fetchVideos_cleanup r)) fcs"
    using calls_ok_cleanup [OF assms] by simp
  then show ?thesis
    using True by (simp add: commit_resets calls_ok_start)
next
  case False
  have "calls_ok (resets prev r r) fcs = calls_ok r fcs"
    by (rule calls_ok_cong) (simp_all add: resets_fields)
  then show ?thesis
    using False assms by (simp add: commit_resets)
qed

lemma pages_ok_commit:
  assumes "pages_ok r fcs"
  shows "pages_ok (fst (commit cfg prev r))
           (fcs @ (case snd (commit cfg prev r) of None \<Rightarrow> [] | Some fc \<Rightarrow> [fc]))"
proof -
  have new: "1 \<le> fc_page fc \<and> fc_isInitial fc = (fc_page fc = 1)"
    if "snd (commit cfg prev r) = Some fc" for fc
  proof -
    have "snd (fetchVideos_start cfg r (resets prev r (fetchVideos_cleanup r))) = Some fc"
      using that by (simp add: commit_resets split: if_splits)
    from start_some [OF this] assms show ?thesis
      by (simp add: pages_ok_def)
  qed
  show ?thesis
    using assms new
    by (auto simp: pages_ok_def commit_fields split: option.splits)
qed

text \<open>The invariants of a page and its calls in flight, together.\<close>

lemma settle_ok:
  assumes "calls_ok r fcs" and "pages_ok r fcs"
  shows "calls_ok (w_state (settle cfg prev r fcs)) (w_pending (settle cfg prev r fcs)) \<and>
         pages_ok (w_state (settle cfg prev r fcs)) (w_pending (settle cfg prev r fcs))"
proof -
  obtain s1 c1 where 1: "commit cfg prev r = (s1, c1)" by (cases "commit cfg prev r")
  obtain s2 c2 where 2: "commit cfg r s1 = (s2, c2)" by (cases "commit cfg r s1")
  let ?f1 = "fcs @ (case c1 of None \<Rightarrow> [] | Some fc \<Rightarrow> [fc])"
  have a: "calls_ok s1 ?f1" and b: "pages_ok s1 ?f1"
    using calls_ok_commit [OF assms(1), of cfg prev] pages_ok_commit [OF assms(2), of cfg prev]
    by (simp_all add: 1)
  have "calls_ok s2 (?f1 @ (case c2 of None \<Rightarrow> [] | Some fc \<Rightarrow> [fc]))"
    and "pages_ok s2 (?f1 @ (case c2 of None \<Rightarrow> [] | Some fc \<Rightarrow> [fc]))"
    using calls_ok_commit [OF a, of cfg r] pages_ok_commit [OF b, of cfg r]
    by (simp_all add: 2)
  then show ?thesis
    by (simp add: settle_def 1 2)
qed

lemma handler_ok:
  assumes "calls_ok (w_state w) (w_pending w)" and "pages_ok (w_state w) (w_pending w)"
  shows "calls_ok (w_state (handler a w)) (w_pending (handler a w)) \<and>
         pages_ok (w_state (handler a w)) (w_pending (handler a w))"
proof (cases a)
  case (Arrive i net)
  have sub: "set (take i (w_pending w) @ drop (Suc i) (w_pending w)) \<subseteq> set (w_pending w)"
    by (auto dest: in_set_takeD in_set_dropD)
  show ?thesis
    using assms sub by (auto simp: Arrive pages_ok_def calls_ok_def aborted_def Let_def)
qed (use assms in \<open>auto simp: pages_ok_def calls_ok_def aborted_def toggleSortOrder_def
      observer_callback_def\<close>)

lemma step_ok:
  assumes "calls_ok (w_state w) (w_pending w)" and "pages_ok (w_state w) (w_pending w)"
  shows "calls_ok (w_state (step cfg a w)) (w_pending (step cfg a w)) \<and>
         pages_ok (w_state (step cfg a w)) (w_pending (step cfg a w))"
  using handler_ok [OF assms, of a]
  by (simp add: step_def Let_def settle_ok)

lemma mount_ok:
  "calls_ok (w_state (mount cfg url)) (w_pending (mount cfg url)) \<and>
   pages_ok (w_state (mount cfg url)) (w_pending (mount cfg url))"
proof -
  define st4 where "st4 =
    reset_on_sort initial_session (reset_on_view (reset_on_source (init_effect cfg url initial_session)))"
  have f: "signals st4 = [] \<and> abortControllerRef st4 = None \<and> page st4 = 1 \<and> isInitializedRef st4"
    by (simp add: st4_def init_effect_def initial_session_def Let_def
        reset_on_source_def reset_on_view_def reset_on_sort_def)
  then have 0: "calls_ok st4 []"
    by (simp add: calls_ok_def)
  obtain s1 c1 where 1: "fetchVideos_start cfg initial_session st4 = (s1, c1)"
    by (cases "fetchVideos_start cfg initial_session st4")
  obtain s2 c2 where 2: "commit cfg initial_session s1 = (s2, c2)"
    by (cases "commit cfg initial_session s1")
  let ?f1 = "case c1 of None \<Rightarrow> [] | Some fc \<Rightarrow> [fc]"
  have a: "calls_ok s1 ?f1"
    using calls_ok_start [OF 0, of cfg initial_session] by (simp add: 1)
  have p1: "page s1 = 1 \<and> isInitializedRef s1"
    using f start_fields(3,8) [of cfg initial_session st4] by (simp add: 1)
  have p0: "page initial_session = 1"
    by (simp add: initial_session_def)
  have "1 \<le> fc_page fc \<and> fc_isInitial fc = (fc_page fc = 1)" if "c1 = Some fc" for fc
  proof -
    have "snd (fetchVideos_start cfg initial_session st4) = Some fc"
      using that by (simp add: 1)
    from start_some [OF this] show ?thesis
      by (simp add: p0)
  qed
  then have b: "pages_ok s1 ?f1"
    using p1 by (auto simp: pages_ok_def split: option.splits)
  have "calls_ok s2 (?f1 @ (case c2 of None \<Rightarrow> [] | Some fc \<Rightarrow> [fc]))"
    and "pages_ok s2 (?f1 @ (case c2 of None \<Rightarrow> [] | Some fc \<Rightarrow> [fc]))"
    using calls_ok_commit [OF a, of cfg initial_session]
      pages_ok_commit [OF b, of cfg initial_session]
    by (simp_all add: 2)
  then show ?thesis
    using 1 2 by (simp add: mount_def Let_def st4_def)
qed

lemma run_ok:
  assumes "calls_ok (w_state w) (w_pending w) \<and> pages_ok (w_state w) (w_pending w)"
  shows "calls_ok (w_state (run cfg as w)) (w_pending (run cfg as w)) \<and>
         pages_ok (w_state (run cfg as w)) (w_pending (run cfg as w))"
  using assms unfolding run_def
proof (induction as arbitrary: w)
  case Nil
  then show ?case by simp
next
  case (Cons a as)
  then show ?case
    using step_ok [of w cfg a] by simp
qed

lemma reachable_ok:
  "calls_ok (w_state (run cfg as (mount cfg url))) (w_pending (run cfg as (mount cfg url))) \<and>
   pages_ok (w_state (run cfg as (mount cfg url))) (w_pending (run cfg as (mount cfg url)))"
  by (rule run_ok) (rule mount_ok)


subsection \<open>Concrete runs\<close>

text \<open>
  The page opened on \<open>?source=emby:main\<close> with every source enabled: the first pass asks
  OpenList for page 1 (the initial source), the second pass aborts that call and asks Emby.
\<close>

lemma demo_mount:
  "mount all_enabled (Some ''emby:main'') =
     \<lparr> w_state =
         initial_session\<lparr>sourceType := ''emby'', embyKey := Some ''main'', isFetchingRef := True,
                         abortControllerRef := Some 1, isInitializedRef := True,
                         signals := [True, False]\<rparr>,
       w_pending =
         [\<lparr> fc_controller = 0, fc_isInitial = True, fc_sourceType = ''openlist'', fc_page = 1,
            fc_endpoint = OpenlistList 1 20 \<rparr>,
          \<lparr> fc_controller = 1, fc_isInitial = True, fc_sourceType = ''emby'', fc_page = 1,
            fc_endpoint =
              EmbyList
                \<lparr> param_page = Some ''1'', param_pageSize = Some ''20'', param_parentId = None,
                  param_embyKey = Some ''main'', param_sortBy = Some ''SortName'',
                  param_sortOrder = Some ''Ascending'' \<rparr> \<rparr>] \<rparr>"
  by code_simp

text \<open>The same page after the first Emby page has arrived and the observer has fired.\<close>

lemma demo_second_page:
  "run all_enabled [Arrive 1 (Json demo_data), Intersect True] (mount all_enabled (Some ''emby:main'')) =
     \<lparr> w_state =
         initial_session\<lparr>sourceType := ''emby'', embyKey := Some ''main'', videos := [demo_video],
                         loading := False, loadingMore := True, page := 2,
                         isFetchingRef := True, abortControllerRef := Some 2,
                         isInitializedRef := True, signals := [True, True, False]\<rparr>,
       w_pending =
         [\<lparr> fc_controller = 0, fc_isInitial = True, fc_sourceType = ''openlist'', fc_page = 1,
            fc_endpoint = OpenlistList 1 20 \<rparr>,
          \<lparr> fc_controller = 2, fc_isInitial = False, fc_sourceType = ''emby'', fc_page = 2,
            fc_endpoint =
              EmbyList
                \<lparr> param_page = Some ''2'', param_pageSize = Some ''20'', param_parentId = None,
                  param_embyKey = Some ''main'', param_sortBy = Some ''SortName'',
                  param_sortOrder = Some ''Ascending'' \<rparr> \<rparr>] \<rparr>"
  by code_simp


subsection \<open>A superseded request changes nothing\<close>

text \<open>
  Claim C2. In every state the page can reach from its first render (by any sequence of
  source, key, view, sort and path changes, observer callbacks and arrivals): every call in
  flight other than the current controller's is aborted; when the awaits of an aborted call
  end, whatever the network answered, the state of the page is exactly what it was (the
  videos, the error and both loading flags included); and the cleanup of the fetch effect
  and the head of \<open>fetchVideos\<close> each abort the current controller, so a call that was
  outstanding is cancelled whenever the effect runs again.
\<close>

theorem stale_response_discarded:
  "(let w = run cfg as (mount cfg url) in
      (\<forall>fc \<in> set (w_pending w).
         abortControllerRef (w_state w) \<noteq> Some (fc_controller fc) \<longrightarrow>
         aborted (w_state w) (fc_controller fc)) \<and>
      (\<forall>i net. i < length (w_pending w) \<and> aborted (w_state w) (fc_controller (w_pending w ! i)) \<longrightarrow>
         w_state (step cfg (Arrive i net) w) = w_state w) \<and>
      (\<forall>r c. abortControllerRef (w_state w) = Some c \<longrightarrow>
         aborted (fetchVideos_cleanup (w_state w)) c \<and>
         aborted (fst (fetchVideos_start cfg r (w_state w))) c))"
proof -
  define w where "w = run cfg as (mount cfg url)"
  have ok: "calls_ok (w_state w) (w_pending w)"
    unfolding w_def using reachable_ok [of cfg as url] by simp
  have 1: "\<forall>fc \<in> set (w_pending w).
         abortControllerRef (w_state w) \<noteq> Some (fc_controller fc) \<longrightarrow>
         aborted (w_state w) (fc_controller fc)"
    using ok by (auto simp: calls_ok_def)
  have 2: "\<forall>i net. i < length (w_pending w) \<and> aborted (w_state w) (fc_controller (w_pending w ! i)) \<longrightarrow>
         w_state (step cfg (Arrive i net) w) = w_state w"
    by (simp add: step_arrive resume_aborted)
  have 3: "\<forall>r c. abortControllerRef (w_state w) = Some c \<longrightarrow>
         aborted (fetchVideos_cleanup (w_state w)) c \<and>
         aborted (fst (fetchVideos_start cfg r (w_state w))) c"
  proof (intro allI impI)
    fix r c
    assume c: "abortControllerRef (w_state w) = Some c"
    then have lt: "c < length (signals (w_state w))"
      using ok by (simp add: calls_ok_def)
    have a: "aborted (fetchVideos_cleanup (w_state w)) c"
      using c lt by (simp add: fetchVideos_cleanup_def aborted_abort)
    have "aborted (fst (fetchVideos_start cfg r (w_state w))) c"
    proof (cases "snd (fetchVideos_start cfg r (w_state w))")
      case None
      then show ?thesis
        using a by (simp add: start_none aborted_def)
    next
      case (Some fc)
      then show ?thesis
        using a start_some [OF Some] by (auto intro: aborted_append)
    qed
    with a show "aborted (fetchVideos_cleanup (w_state w)) c \<and>
         aborted (fst (fetchVideos_start cfg r (w_state w))) c" ..
  qed
  from 1 2 3 show ?thesis
    by (simp add: Let_def w_def)
qed

theorem stale_response_discarded_witness:
  "abortControllerRef (w_state (mount all_enabled (Some ''emby:main''))) = Some 1 \<and>
   fc_controller (w_pending (mount all_enabled (Some ''emby:main'')) ! 0) = 0 \<and>
   aborted (w_state (mount all_enabled (Some ''emby:main''))) 0 \<and>
   w_state (step all_enabled (Arrive 0 (Json demo_data)) (mount all_enabled (Some ''emby:main''))) =
     w_state (mount all_enabled (Some ''emby:main'')) \<and>
   aborted (fetchVideos_cleanup (w_state (mount all_enabled (Some ''emby:main'')))) 1"
proof -
  let ?w = "mount all_enabled (Some ''emby:main'')"
  have h: "abortControllerRef (w_state ?w) = Some 1"
    "fc_controller (w_pending ?w ! 0) = 0"
    "aborted (w_state ?w) 0"
    "0 < length (w_pending ?w)"
    by (simp_all add: demo_mount aborted_def)
  have r: "run all_enabled [] ?w = ?w"
    by (simp add: run_def)
  from stale_response_discarded [of all_enabled "[]" "Some ''emby:main''"]
  have "w_state (step all_enabled (Arrive 0 (Json demo_data)) ?w) = w_state ?w \<and>
      aborted (fetchVideos_cleanup (w_state ?w)) 1"
    unfolding r Let_def using h by metis
  with h show ?thesis by simp
qed

subsection \<open>\<open>hasMore\<close> after a successful fetch\<close>



subsection \<open>A failed fetch\<close>

text \<open>
  Claim C6. In every reachable state, when the awaits of a call that is not aborted end in
  a failure (a JSON with an error, a response that is not \<open>ok\<close>, or a rejection other than
  an abort), the error of the page is the failure's message; the videos are emptied if the
  call asked for page 1 and are what they were otherwise; \<open>hasMore\<close> is what it was.
\<close>

theorem failed_fetch_surfaces_error:
  "(let w = run cfg as (mount cfg url) in
      \<forall>i net msg. i < length (w_pending w) \<and>
             \<not> aborted (w_state w) (fc_controller (w_pending w ! i)) \<and>
             fetch_failure net = Some msg \<longrightarrow>
        (let fc = w_pending w ! i;
             s = w_state (step cfg (Arrive i net) w)
         in error s = msg \<and>
            videos s = (if fc_page fc = 1 then [] else videos (w_state w)) \<and>
            hasMore s = hasMore (w_state w)))"
proof -
  define w where "w = run cfg as (mount cfg url)"
  have ok: "pages_ok (w_state w) (w_pending w)"
    unfolding w_def using reachable_ok [of cfg as url] by simp
  have main: "error (w_state (step cfg (Arrive i net) w)) = msg \<and>
        videos (w_state (step cfg (Arrive i net) w)) =
          (if fc_page (w_pending w ! i) = 1 then [] else videos (w_state w)) \<and>
        hasMore (w_state (step cfg (Arrive i net) w)) = hasMore (w_state w)"
    if i: "i < length (w_pending w)"
      and live: "\<not> aborted (w_state w) (fc_controller (w_pending w ! i))"
      and f: "fetch_failure net = Some msg"
    for i net msg
  proof -
    define fc where "fc = w_pending w ! i"
    have init: "fc_isInitial fc = (fc_page fc = 1)"
      using ok i by (simp add: pages_ok_def fc_def)
    have s: "w_state (step cfg (Arrive i net) w) = fetchVideos_resume fc net (w_state w)"
      using live by (simp add: step_arrive [OF i] deliver_live fc_def)
    have "error (fetchVideos_resume fc net (w_state w)) = msg \<and>
        videos (fetchVideos_resume fc net (w_state w)) =
          (if fc_page fc = 1 then [] else videos (w_state w)) \<and>
        hasMore (fetchVideos_resume fc net (w_state w)) = hasMore (w_state w)"
      using f init
      by (cases net)
        (auto simp: fetchVideos_resume_def fetchVideos_finally_def fetchVideos_catch_def
          fetchVideos_data_def Let_def split: option.splits if_splits)
    then show ?thesis
      unfolding s fc_def [symmetric] .
  qed
  show ?thesis
    unfolding Let_def w_def [symmetric] using main by blast
qed

theorem failed_fetch_surfaces_error_witness:
  "error (w_state (step all_enabled (Arrive 1 NotOk) (mount all_enabled (Some ''emby:main'')))) =
     fetch_failed \<and>
   videos (w_state (step all_enabled (Arrive 1 NotOk) (mount all_enabled (Some ''emby:main'')))) = [] \<and>
   videos (w_state (run all_enabled [Arrive 1 (Json demo_data), Intersect True]
     (mount all_enabled (Some ''emby:main'')))) = [demo_video] \<and>
   error (w_state (step all_enabled (Arrive 1 (Rejected (JsError ''TypeError'' ''Failed to fetch'')))
     (run all_enabled [Arrive 1 (Json demo_data), Intersect True]
       (mount all_enabled (Some ''emby:main''))))) = fetch_failed \<and>
   videos (w_state (step all_enabled (Arrive 1 (Rejected (JsError ''TypeError'' ''Failed to fetch'')))
     (run all_enabled [Arrive 1 (Json demo_data), Intersect True]
       (mount all_enabled (Some ''emby:main''))))) = [demo_video]"
proof -
  let ?w = "mount all_enabled (Some ''emby:main'')"
  let ?v = "run all_enabled [Arrive 1 (Json demo_data), Intersect True] ?w"
  have h: "1 < length (w_pending ?w)"
    "\<not> aborted (w_state ?w) (fc_controller (w_pending ?w ! 1))"
    "fc_page (w_pending ?w ! 1) = 1"
    by (simp_all add: demo_mount aborted_def)
  have v: "1 < length (w_pending ?v)"
    "\<not> aborted (w_state ?v) (fc_controller (w_pending ?v ! 1))"
    "fc_page (w_pending ?v ! 1) = 2"
    "videos (w_state ?v) = [demo_video]"
    unfolding demo_second_page by (simp_all add: aborted_def)
  have f: "fetch_failure NotOk = Some fetch_failed"
    "fetch_failure (Rejected (JsError ''TypeError'' ''Failed to fetch'')) = Some fetch_failed"
    by simp_all
  have r: "run all_enabled [] ?w = ?w"
    by (simp add: run_def)
  have a: "error (w_state (step all_enabled (Arrive 1 NotOk) ?w)) = fetch_failed \<and>
      videos (w_state (step all_enabled (Arrive 1 NotOk) ?w)) = []"
    using failed_fetch_surfaces_error [of all_enabled "[]" "Some ''emby:main''"] h f(1)
    unfolding r Let_def by simp
  have b: "error (w_state (step all_enabled
        (Arrive 1 (Rejected (JsError ''TypeError'' ''Failed to fetch''))) ?v)) = fetch_failed \<and>
      videos (w_state (step all_enabled
        (Arrive 1 (Rejected (JsError ''TypeError'' ''Failed to fetch''))) ?v)) = [demo_video]"
    using failed_fetch_surfaces_error [of all_enabled "[Arrive 1 (Json demo_data), Intersect True]"
        "Some ''emby:main''"] v f(2)
    unfolding Let_def by simp
  from a b v(4) show ?thesis by simp
qed

subsection \<open>The resets\<close>

text \<open>
  What the three reset effects write. In every reachable state the page is initialised, so:
  the reset effect on the source type and the Emby key empties the videos, sets the page to
  1 and \<open>hasMore\<close> to true, clears the error and both loading flags, and sets the view to
  \<open>all\<close>; the reset effect on the view does the same but for the view; the reset effect on
  the sort does the same while the source type is \<open>emby\<close>, the only source whose sort
  controls are shown, and returns at once otherwise. A pass in which one of these effects
  has to run (the sort effect under \<open>emby\<close>) ends with no videos, page 1, \<open>hasMore\<close>
  true and no error.
\<close>

lemma reset_effects_clear:
  "(let st = w_state (run cfg as (mount cfg url)) in
      fully_reset (reset_on_source st) \<and> selectedView (reset_on_source st) = ''all'' \<and>
      fully_reset (reset_on_view st) \<and>
      (sourceType r = ''emby'' \<longrightarrow> fully_reset (reset_on_sort r st)) \<and>
      (sourceType r \<noteq> ''emby'' \<longrightarrow> reset_on_sort r st = st) \<and>
      (\<forall>prev. source_deps prev \<noteq> source_deps st \<or> selectedView prev \<noteq> selectedView st \<or>
              (sort_deps prev \<noteq> sort_deps st \<and> sourceType st = ''emby'') \<longrightarrow>
         videos (fst (commit cfg prev st)) = [] \<and> page (fst (commit cfg prev st)) = 1 \<and>
         hasMore (fst (commit cfg prev st)) \<and> error (fst (commit cfg prev st)) = []))"
proof -
  define st where "st = w_state (run cfg as (mount cfg url))"
  have init: "isInitializedRef st"
    unfolding st_def using reachable_ok [of cfg as url] by (simp add: pages_ok_def)
  have 1: "fully_reset (reset_on_source st) \<and> selectedView (reset_on_source st) = ''all'' \<and>
      fully_reset (reset_on_view st) \<and>
      (sourceType r = ''emby'' \<longrightarrow> fully_reset (reset_on_sort r st)) \<and>
      (sourceType r \<noteq> ''emby'' \<longrightarrow> reset_on_sort r st = st)"
    using init
    by (simp add: fully_reset_def reset_on_source_def reset_on_view_def reset_on_sort_def)
  have 2: "videos (fst (commit cfg prev st)) = [] \<and> page (fst (commit cfg prev st)) = 1 \<and>
         hasMore (fst (commit cfg prev st)) \<and> error (fst (commit cfg prev st)) = []"
    if ch: "source_deps prev \<noteq> source_deps st \<or> selectedView prev \<noteq> selectedView st \<or>
              (sort_deps prev \<noteq> sort_deps st \<and> sourceType st = ''emby'')" for prev
  proof -
    have a: "isInitializedRef (fetchVideos_cleanup st)"
      using init by simp
    show ?thesis
      using resets_cleared [OF a ch] resets_cleared [OF init ch]
      by (simp add: commit_resets start_fields)
  qed
  from 1 2 show ?thesis
    by (simp add: Let_def st_def)
qed

lemma reset_effects_clear_example:
  "videos (w_state (run all_enabled [Arrive 1 (Json demo_data), Intersect True]
     (mount all_enabled (Some ''emby:main'')))) = [demo_video] \<and>
   fully_reset (reset_on_source (w_state (run all_enabled [Arrive 1 (Json demo_data), Intersect True]
     (mount all_enabled (Some ''emby:main''))))) \<and>
   fully_reset (reset_on_sort
     (w_state (run all_enabled [Arrive 1 (Json demo_data), Intersect True]
        (mount all_enabled (Some ''emby:main''))))
     (w_state (run all_enabled [Arrive 1 (Json demo_data), Intersect True]
        (mount all_enabled (Some ''emby:main''))))) \<and>
   reset_on_sort initial_session
     (w_state (run all_enabled [Arrive 1 (Json demo_data), Intersect True]
        (mount all_enabled (Some ''emby:main'')))) =
     w_state (run all_enabled [Arrive 1 (Json demo_data), Intersect True]
        (mount all_enabled (Some ''emby:main''))) \<and>
   videos (fst (commit all_enabled initial_session
     (w_state (run all_enabled [Arrive 1 (Json demo_data), Intersect True]
        (mount all_enabled (Some ''emby:main'')))))) = []"
proof -
  let ?st = "w_state (run all_enabled [Arrive 1 (Json demo_data), Intersect True]
     (mount all_enabled (Some ''emby:main'')))"
  have h: "videos ?st = [demo_video]" "sourceType ?st = ''emby''"
    "sourceType initial_session \<noteq> ''emby''"
    "source_deps initial_session \<noteq> source_deps ?st"
    unfolding demo_second_page by (simp_all add: initial_session_def source_deps_def)
  have a: "fully_reset (reset_on_source ?st) \<and> fully_reset (reset_on_sort ?st ?st) \<and>
      videos (fst (commit all_enabled initial_session ?st)) = []"
    using reset_effects_clear [of all_enabled "[Arrive 1 (Json demo_data), Intersect True]"
        "Some ''emby:main''" ?st] h
    unfolding Let_def by blast
  have b: "reset_on_sort initial_session ?st = ?st"
    using reset_effects_clear [of all_enabled "[Arrive 1 (Json demo_data), Intersect True]"
        "Some ''emby:main''" initial_session] h
    unfolding Let_def by blast
  from a b h(1) show ?thesis by simp
qed

text \<open>
  The loading flags at the end of such a pass. The fetch effect depends on everything the
  reset effects depend on, so it runs in the same pass, after them, and its closure still
  holds the page number of the render: when the source is enabled it sets \<open>loading\<close> if
  that page was 1 and \<open>loadingMore\<close> otherwise, whatever the resets have just written.
\<close>

lemma reset_pass_flags:
  assumes init: "isInitializedRef st"
    and ch: "source_deps prev \<noteq> source_deps st \<or> selectedView prev \<noteq> selectedView st \<or>
         (sort_deps prev \<noteq> sort_deps st \<and> sourceType st = ''emby'')"
    and en: "\<not> source_disabled cfg st"
  shows "loading (fst (commit cfg prev st)) = (page st = 1)"
    and "loadingMore (fst (commit cfg prev st)) = (page st \<noteq> 1)"
proof -
  have deps: "fetch_deps prev \<noteq> fetch_deps st"
    using ch by (auto simp: fetch_deps_def source_deps_def sort_deps_def)
  have a: "isInitializedRef (fetchVideos_cleanup st)"
    using init by simp
  have cleared: "\<not> loading (resets prev st (fetchVideos_cleanup st))"
    "\<not> loadingMore (resets prev st (fetchVideos_cleanup st))"
    using a ch
    by (auto simp: resets_def Let_def reset_on_source_def reset_on_view_def reset_on_sort_def)
  show "loading (fst (commit cfg prev st)) = (page st = 1)"
    using cleared by (simp add: commit_resets deps fetchVideos_start_enabled [OF en] Let_def)
  show "loadingMore (fst (commit cfg prev st)) = (page st \<noteq> 1)"
    using cleared by (simp add: commit_resets deps fetchVideos_start_enabled [OF en] Let_def)
qed

text \<open>
  Claim C5: every change of the source type or Emby key, of the view, or of the sort field
  or direction empties the videos, sets the page to 1 and \<open>hasMore\<close> to true, and clears
  the error and both loading flags. The page does all of it but for \<open>loadingMore\<close> when
  the change is made on a page after the first. With two pages of the server \<open>main\<close>
  loaded and nothing in flight but the aborted first call, selecting another view (or sort
  field, sort direction, or server) empties the videos, sets the page to 1, \<open>hasMore\<close> to
  true and clears the error, and leaves \<open>loadingMore\<close> set: the reset effect clears it,
  the fetch effect of the same pass sets it again for page 2, and the next pass aborts that
  call, so that its \<open>finally\<close> block never clears the flag. After every call has been
  answered \<open>loadingMore\<close> is still set, \<open>loading\<close> is not, \<open>hasMore\<close> is true, and the
  observer no longer advances the page.
\<close>

theorem reset_leaves_loadingMore_set:
  "videos (w_state emby_two_pages) = [demo_video, demo_video] \<and>
   page (w_state emby_two_pages) = 2 \<and>
   sourceType (w_state emby_two_pages) = ''emby'' \<and>
   \<not> loading (w_state emby_two_pages) \<and>
   \<not> loadingMore (w_state emby_two_pages) \<and>
   videos (w_state (step all_enabled (SetSelectedView ''v1'') emby_two_pages)) = [] \<and>
   page (w_state (step all_enabled (SetSelectedView ''v1'') emby_two_pages)) = 1 \<and>
   hasMore (w_state (step all_enabled (SetSelectedView ''v1'') emby_two_pages)) \<and>
   error (w_state (step all_enabled (SetSelectedView ''v1'') emby_two_pages)) = [] \<and>
   loadingMore (w_state (step all_enabled (SetSelectedView ''v1'') emby_two_pages)) \<and>
   loadingMore (w_state (step all_enabled (SelectSort ''DateCreated'') emby_two_pages)) \<and>
   loadingMore (w_state (step all_enabled ToggleSortOrder emby_two_pages)) \<and>
   loadingMore (w_state (step all_enabled (SetEmbyKey ''other'') emby_two_pages)) \<and>
   w_pending (run all_enabled
     [SetSelectedView ''v1'', Arrive 2 (Json demo_data), Arrive 1 (Json demo_data),
      Arrive 0 (Json demo_data)] emby_two_pages) = [] \<and>
   loadingMore (w_state (run all_enabled
     [SetSelectedView ''v1'', Arrive 2 (Json demo_data), Arrive 1 (Json demo_data),
      Arrive 0 (Json demo_data)] emby_two_pages)) \<and>
   \<not> loading (w_state (run all_enabled
     [SetSelectedView ''v1'', Arrive 2 (Json demo_data), Arrive 1 (Json demo_data),
      Arrive 0 (Json demo_data)] emby_two_pages)) \<and>
   hasMore (w_state (run all_enabled
     [SetSelectedView ''v1'', Arrive 2 (Json demo_data), Arrive 1 (Json demo_data),
      Arrive 0 (Json demo_data)] emby_two_pages)) \<and>
   page (w_state (run all_enabled
     [SetSelectedView ''v1'', Arrive 2 (Json demo_data), Arrive 1 (Json demo_data),
      Arrive 0 (Json demo_data), Intersect True] emby_two_pages)) = 1"
  by code_simp

subsection \<open>A disabled source\<close>




section \<open>Paging through a library\<close>

subsection \<open>A page number survives the query string\<close>

lemma digit_char_props:
  assumes "d < 10"
  shows "digit_value 10 (digit_char d) = Some d"
    and "\<not> is_space (digit_char d)"
    and "digit_char d \<noteq> CHR ''-''" and "digit_char d \<noteq> CHR ''+''"
    and "digit_char d \<noteq> CHR ''x''" and "digit_char d \<noteq> CHR ''X''"
proof -
  have "d \<in> {0, 1, 2, 3, 4, 5, 6, 7, 8, 9}"
    using assms by auto
  then show "digit_value 10 (digit_char d) = Some d"
    and "\<not> is_space (digit_char d)"
    and "digit_char d \<noteq> CHR ''-''" and "digit_char d \<noteq> CHR ''+''"
    and "digit_char d \<noteq> CHR ''x''" and "digit_char d \<noteq> CHR ''X''"
    by (auto simp: digit_char_def digit_value_def is_space_def)
qed

lemma nat_digits_lt: "d \<in> set (nat_digits n) \<Longrightarrow> d < 10"
proof (induction n rule: nat_digits.induct)
  case (1 n)
  then show ?case
    by (subst (asm) (2) nat_digits.simps) (auto split: if_splits)
qed

lemma nat_digits_nonempty: "nat_digits n \<noteq> []"
  by (subst nat_digits.simps) simp

lemma nat_digits_value: "foldl (\<lambda>a d. a * 10 + d) 0 (nat_digits n) = n"
proof (induction n rule: nat_digits.induct)
  case (1 n)
  show ?case
  proof (cases "n < 10")
    case True
    then show ?thesis by (subst nat_digits.simps) simp
  next
    case False
    then show ?thesis using 1 by (subst nat_digits.simps) simp
  qed
qed

lemma parse_digits_digit_chars:
  "\<forall>d \<in> set ds. d < 10 \<Longrightarrow> parse_digits 10 (map digit_char ds) = ds"
  by (induction ds) (simp_all add: digit_char_props)

lemma parseInt_digits_of_nat: "parseInt (digits_of_nat n) = Some (int n)"
proof -
  obtain d ds where ds: "nat_digits n = d # ds"
    using nat_digits_nonempty [of n] by (cases "nat_digits n") auto
  have lt: "\<forall>x \<in> set (d # ds). x < 10"
    using nat_digits_lt [of _ n] by (simp add: ds)
  then have d: "d < 10" by simp
  have 1: "dropWhile is_space (digits_of_nat n) = digits_of_nat n"
    by (simp add: digits_of_nat_def ds digit_char_props [OF d])
  have 2: "strip_sign (digits_of_nat n) = (1, digits_of_nat n)"
    by (simp add: strip_sign_def digits_of_nat_def ds digit_char_props [OF d])
  have 3: "strip_radix (digits_of_nat n) = (10, digits_of_nat n)"
  proof (cases ds)
    case Nil
    then show ?thesis by (simp add: strip_radix_def digits_of_nat_def ds)
  next
    case (Cons e es)
    then have "e < 10" using lt by simp
    then show ?thesis
      by (simp add: strip_radix_def digits_of_nat_def ds Cons digit_char_props)
  qed
  have 4: "parse_digits 10 (digits_of_nat n) = nat_digits n"
    unfolding digits_of_nat_def by (rule parse_digits_digit_chars) (use lt ds in simp)
  show ?thesis
    by (simp add: parseInt_def 1 2 3 4 nat_digits_nonempty nat_digits_value)
qed

lemma parseInt_toString: "0 \<le> i \<Longrightarrow> parseInt (toString i) = Some i"
  by (simp add: toString_def parseInt_digits_of_nat)

lemma toString_nonempty: "toString i \<noteq> []"
  by (simp add: toString_def digits_of_nat_def nat_digits_nonempty)

subsection \<open>The endpoint on a library\<close>

lemma GET_library:
  assumes "0 \<le> p"
  shows "fst (GET (library_backend lib)
           \<lparr> param_page = Some (toString p), param_pageSize = Some (toString pageSize),
             param_parentId = pid, param_embyKey = Some k,
             param_sortBy = Some sb, param_sortOrder = Some so \<rparr>) =
         \<lparr> resp_success = Some True,
           resp_error = None,
           resp_list = map (normalize_item (library_client lib)) (take 20 (drop (nat ((p - 1) * 20)) lib)),
           resp_totalPages = Math_ceil_div (int (length lib)) (Some 20),
           resp_currentPage = Some p,
           resp_total = int (length lib) \<rparr>"
proof -
  let ?rq = "\<lparr> param_page = Some (toString p), param_pageSize = Some (toString pageSize),
             param_parentId = pid, param_embyKey = Some k,
             param_sortBy = Some sb, param_sortOrder = Some so \<rparr>"
  have pg: "req_page ?rq = Some p"
    using assms by (simp add: req_page_def or_default_def toString_nonempty parseInt_toString)
  have ps: "req_pageSize ?rq = Some 20"
    by (simp add: req_pageSize_def or_default_def toString_nonempty parseInt_toString pageSize_def)
  have q: "getItems (library_client lib) (items_query_of ?rq) =
      Inr \<lparr> res_Items = take 20 (drop (nat ((p - 1) * 20)) lib), res_TotalRecordCount = int (length lib) \<rparr>"
    by (simp add: library_client_def items_query_of_def pg ps start_index_def)
  have f: "fst (GET_fetch (library_backend lib) ?rq) =
      Inr (success_response ?rq (library_client lib)
        \<lparr> res_Items = take 20 (drop (nat ((p - 1) * 20)) lib), res_TotalRecordCount = int (length lib) \<rparr>)"
    unfolding GET_fetch_def using q by (simp add: library_backend_def Let_def)
  have t: "fst (GET_try (library_backend lib) ?rq) = fst (GET_fetch (library_backend lib) ?rq)"
    by (simp add: GET_try_def cache_lookup_def library_backend_def split: prod.splits)
  have "fst (GET (library_backend lib) ?rq) =
      success_response ?rq (library_client lib)
        \<lparr> res_Items = take 20 (drop (nat ((p - 1) * 20)) lib), res_TotalRecordCount = int (length lib) \<rparr>"
    by (simp add: GET_fst t f)
  then show ?thesis
    by (simp add: success_response_def pg ps)
qed

subsection \<open>One page after the other\<close>

lemma mount_emby_only:
  "mount emby_only None =
     \<lparr> w_state = initial_session\<lparr>sourceType := ''emby'', loading := False, isInitializedRef := True\<rparr>,
       w_pending = [] \<rparr>"
  by code_simp

lemma start_emby:
  "key \<noteq> [] \<Longrightarrow> sourceType r = ''emby'' \<Longrightarrow> embyKey r = Some key \<Longrightarrow>
   fetchVideos_start emby_only r st =
     (let st1 = fetchVideos_cleanup st;
          c = length (signals st1);
          st2 = st1\<lparr>signals := signals st1 @ [False],
                    abortControllerRef := Some c,
                    isFetchingRef := True\<rparr>;
          st3 = (if page r = 1 then st2\<lparr>loading := True\<rparr> else st2\<lparr>loadingMore := True\<rparr>)
      in (st3\<lparr>error := []\<rparr>,
          Some \<lparr> fc_controller = c,
                 fc_isInitial = (page r = 1),
                 fc_sourceType = sourceType r,
                 fc_page = page r,
                 fc_endpoint = endpoint_of r \<rparr>))"
  by (rule fetchVideos_start_enabled) (simp add: source_disabled_def emby_only_def falsy_def)

lemma commit_page:
  "source_deps prev = source_deps r \<Longrightarrow> selectedView prev = selectedView r \<Longrightarrow>
   sort_deps prev = sort_deps r \<Longrightarrow> page prev \<noteq> page r \<Longrightarrow>
   commit cfg prev r = fetchVideos_start cfg r (fetchVideos_cleanup r)"
  by (simp add: commit_def fetch_deps_def)

lemma arrive_only_call:
  "\<not> aborted st (fc_controller fc) \<Longrightarrow>
   step cfg (Arrive 0 net) \<lparr> w_state = st, w_pending = [fc] \<rparr> =
     \<lparr> w_state = fetchVideos_resume fc net st, w_pending = [] \<rparr>"
  by (simp add: step_def deliver_def Let_def settle_unchanged)

lemma emby_call_sel:
  "fc_controller (emby_call key k) = k - 1"
  "fc_isInitial (emby_call key k) = (k = 1)"
  "fc_sourceType (emby_call key k) = ''emby''"
  "fc_page (emby_call key k) = int k"
  "fc_endpoint (emby_call key k) =
     EmbyList
       \<lparr> param_page = Some (toString (int k)),
         param_pageSize = Some (toString pageSize),
         param_parentId = None,
         param_embyKey = Some key,
         param_sortBy = Some ''SortName'',
         param_sortOrder = Some ''Ascending'' \<rparr>"
  by (simp_all add: emby_call_def)

lemma commit_key:
  "key \<noteq> [] \<Longrightarrow>
   commit emby_only
     (initial_session\<lparr>sourceType := ''emby'', loading := False, isInitializedRef := True\<rparr>)
     (initial_session\<lparr>sourceType := ''emby'', loading := False, isInitializedRef := True, embyKey := Some key\<rparr>)
   = (inflight key [] (Suc 0), Some (emby_call key (Suc 0)))"
  apply (simp add: commit_def fetch_deps_def source_deps_def sort_deps_def start_emby)
  apply (simp add: initial_session_def reset_on_source_def fetchVideos_cleanup_def Let_def
     browsing_def emby_call_def endpoint_of_def inflight_def)
  done

lemma opened_eq:
  assumes "key \<noteq> []"
  shows "opened key = \<lparr> w_state = inflight key [] (Suc 0), w_pending = [emby_call key (Suc 0)] \<rparr>"
proof -
  have 2: "commit emby_only
      (initial_session\<lparr>sourceType := ''emby'', loading := False, isInitializedRef := True, embyKey := Some key\<rparr>)
      (inflight key [] (Suc 0)) = (inflight key [] (Suc 0), None)"
    by (rule commit_unchanged) (simp add: fetch_deps_def browsing_def initial_session_def inflight_def)
  show ?thesis
    by (simp add: opened_def mount_emby_only step_def settle_def commit_key [OF assms] 2)
qed

lemma resume_page:
  assumes "0 < k"
  shows "fetchVideos_resume (emby_call key k)
          (Json (data_of_response (fst (GET (library_backend lib)
             \<lparr> param_page = Some (toString (int k)), param_pageSize = Some (toString pageSize),
               param_parentId = None, param_embyKey = Some key,
               param_sortBy = Some ''SortName'', param_sortOrder = Some ''Ascending'' \<rparr>))))
          (inflight key vs k) =
         browsing key ((if k = 1 then [] else vs) @ page_videos lib k) k (int k < pages_seen lib)"
proof -
  have g: "fst (GET (library_backend lib)
           \<lparr> param_page = Some (toString (int k)), param_pageSize = Some (toString pageSize),
             param_parentId = None, param_embyKey = Some key,
             param_sortBy = Some ''SortName'', param_sortOrder = Some ''Ascending'' \<rparr>) =
         \<lparr> resp_success = Some True,
           resp_error = None,
           resp_list = map (normalize_item (library_client lib)) (take 20 (drop (nat ((int k - 1) * 20)) lib)),
           resp_totalPages = Math_ceil_div (int (length lib)) (Some 20),
           resp_currentPage = Some (int k),
           resp_total = int (length lib) \<rparr>"
    by (rule GET_library) simp
  have n: "nat ((int k - 1) * 20) = 20 * (k - 1)"
    using assms by (simp add: nat_mult_distrib nat_diff_distrib')
  show ?thesis
    unfolding g n using assms
    by (simp add: fetchVideos_resume_def fetchVideos_data_def fetchVideos_success_def
        fetchVideos_finally_def data_of_response_def emby_call_sel browsing_def aborted_def
        page_videos_def pages_seen_def Let_def nth_append num_or_def inflight_def)
qed

lemma inflight_not_aborted:
  "0 < k \<Longrightarrow> \<not> aborted (inflight key vs k) (fc_controller (emby_call key k))"
  by (simp add: aborted_def inflight_def browsing_def emby_call_sel nth_append)

lemma respond_inflight:
  assumes "0 < k"
  shows "respond (library_backend lib) emby_only
           \<lparr> w_state = inflight key vs k, w_pending = [emby_call key k] \<rparr> =
         \<lparr> w_state = browsing key ((if k = 1 then [] else vs) @ page_videos lib k) k
                       (int k < pages_seen lib),
           w_pending = [] \<rparr>"
  by (simp add: respond_def emby_call_sel arrive_only_call [OF inflight_not_aborted [OF assms]]
      resume_page [OF assms])

lemma replicate_abort: "(replicate j True @ [False])[j := True] = replicate j True @ [True]"
  by (induction j) simp_all

lemma cleanup_idem: "fetchVideos_cleanup (fetchVideos_cleanup st) = fetchVideos_cleanup st"
  by (simp add: fetchVideos_cleanup_def abort_def split: option.splits)

lemma cleanup_browsing:
  "fetchVideos_cleanup ((browsing key vs (Suc j) hm)\<lparr>page := p\<rparr>) =
     (browsing key vs (Suc j) hm)\<lparr>page := p, signals := replicate j True @ [True]\<rparr>"
  by (simp add: fetchVideos_cleanup_def abort_def browsing_def replicate_abort)

lemma intersect_browsing:
  assumes "key \<noteq> []"
  shows "step emby_only (Intersect True) \<lparr> w_state = browsing key vs (Suc j) True, w_pending = [] \<rparr> =
         \<lparr> w_state = inflight key vs (Suc (Suc j)), w_pending = [emby_call key (Suc (Suc j))] \<rparr>"
proof -
  let ?st = "browsing key vs (Suc j) True"
  let ?r = "?st\<lparr>page := page ?st + 1\<rparr>"
  have h: "handler (Intersect True) \<lparr> w_state = ?st, w_pending = [] \<rparr> = \<lparr> w_state = ?r, w_pending = [] \<rparr>"
    by (simp add: observer_callback_def browsing_def)
  have c: "commit emby_only ?st ?r = fetchVideos_start emby_only ?r (fetchVideos_cleanup ?r)"
    by (rule commit_page) (simp_all add: source_deps_def sort_deps_def)
  have src: "sourceType ?r = ''emby''" and key: "embyKey ?r = Some key"
    by (simp_all add: browsing_def)
  have cl: "fetchVideos_cleanup (fetchVideos_cleanup ?r) =
      ?st\<lparr>page := page ?st + 1, signals := replicate j True @ [True]\<rparr>"
    by (subst cleanup_idem) (simp add: cleanup_browsing)
  have s: "fetchVideos_start emby_only ?r (fetchVideos_cleanup ?r) =
      (inflight key vs (Suc (Suc j)), Some (emby_call key (Suc (Suc j))))"
    unfolding start_emby [OF assms src key] cl
    by (simp add: browsing_def Let_def inflight_def emby_call_def endpoint_of_def
        replicate_append_same)
  have 2: "commit emby_only ?r (inflight key vs (Suc (Suc j))) = (inflight key vs (Suc (Suc j)), None)"
    by (rule commit_unchanged) (simp add: fetch_deps_def browsing_def inflight_def)
  show ?thesis
    unfolding step_def h by (simp add: settle_def c s 2)
qed

lemma first_page:
  assumes "key \<noteq> []"
  shows "pages_loaded (library_backend lib) key (Suc 0) =
     \<lparr> w_state = browsing key (page_videos lib (Suc 0)) (Suc 0) (1 < pages_seen lib), w_pending = [] \<rparr>"
  using respond_inflight [of "Suc 0" lib key "[]"]
  by (simp add: opened_eq [OF assms])

lemma take_page: "map f (take n xs) @ map f (take m (drop n xs)) = map f (take (n + m) xs)"
  by (simp add: take_add)

text \<open>
  After \<open>Suc j\<close> pages, each asked for while \<open>hasMore\<close> was true, the page is at rest with
  the first \<open>20 * Suc j\<close> items of the library, in the library's order.
\<close>

lemma pages_loaded_eq:
  assumes "key \<noteq> []"
  shows "j = 0 \<or> int j < pages_seen lib \<Longrightarrow>
     pages_loaded (library_backend lib) key (Suc j) =
       \<lparr> w_state = browsing key (map (normalize_item (library_client lib)) (take (20 * Suc j) lib))
                      (Suc j) (int (Suc j) < pages_seen lib),
         w_pending = [] \<rparr>"
proof (induction j)
  case 0
  show ?case
    using first_page [OF assms, of lib] by (simp add: page_videos_def)
next
  case (Suc j)
  then have more: "int (Suc j) < pages_seen lib" by simp
  then have "j = 0 \<or> int j < pages_seen lib" by simp
  then have ih: "pages_loaded (library_backend lib) key (Suc j) =
       \<lparr> w_state = browsing key (map (normalize_item (library_client lib)) (take (20 * Suc j) lib))
                      (Suc j) True,
         w_pending = [] \<rparr>"
    using Suc.IH more by simp
  show ?case
    unfolding pages_loaded.simps ih intersect_browsing [OF assms]
    using respond_inflight [of "Suc (Suc j)" lib key]
    by (simp add: page_videos_def take_page)
qed

lemma Math_ceil_div_bounds:
  fixes s t :: int
  assumes "0 < s"
  shows "(- ((- t) div s) - 1) * s < t \<and> t \<le> - ((- t) div s) * s"
proof -
  define q where "q = (- t) div s"
  define r where "r = (- t) mod s"
  have m: "- t = q * s + r"
    by (simp add: q_def r_def)
  have r: "0 \<le> r \<and> r < s"
    using assms by (simp add: r_def)
  have e: "(- q - 1) * s = - (q * s) - s" "- q * s = - (q * s)"
    by (simp_all add: algebra_simps)
  show ?thesis
    unfolding q_def [symmetric] e using m r by linarith
qed

lemma pages_seen_45: "length lib = 45 \<Longrightarrow> pages_seen lib = 3"
  by (simp add: pages_seen_def Math_ceil_div_int num_or_def)

subsection \<open>The number of pages, and three pages of forty-five items\<close>

text \<open>
  Claim C8. When the response is fetched and \<open>pageSize\<close> is a number other than zero,
  \<open>totalPages\<close> is the ceiling of the total record count divided by \<open>pageSize\<close>; for a
  positive \<open>pageSize\<close> it is the number \<open>n\<close> of pages with \<open>(n - 1) * pageSize < total\<close>
  and \<open>total \<le> n * pageSize\<close>. A page that browses a library through the endpoint, asking
  for the next page while \<open>hasMore\<close> is true, holds after \<open>k\<close> pages the first \<open>20 * k\<close>
  items of the library in order, each once, and \<open>hasMore\<close> says whether \<open>k\<close> is less than
  the number of pages. With 45 items: every response has \<open>totalPages = 3\<close>, \<open>hasMore\<close> is
  true, true and false after pages 1, 2 and 3, and the videos are then the 45 items of the
  library, without duplicates if the library has none.
\<close>

theorem totalPages_and_paging:
  "((isDefaultSort rq \<longrightarrow> cache_lookup be rq = None) \<and>
    getClient be (req_embyKey rq) = Inr client \<and>
    getItems client (items_query_of rq) = Inr result \<and>
    req_pageSize rq = Some ps \<and> ps \<noteq> 0 \<longrightarrow>
      resp_totalPages (fst (GET be rq)) =
        Some \<lceil>rat_of_int (res_TotalRecordCount result) / rat_of_int ps\<rceil> \<and>
      (0 < ps \<longrightarrow>
         (\<exists>n. resp_totalPages (fst (GET be rq)) = Some n \<and>
              (n - 1) * ps < res_TotalRecordCount result \<and>
              res_TotalRecordCount result \<le> n * ps))) \<and>
   (key \<noteq> [] \<and> (j = 0 \<or> int j < pages_seen lib) \<longrightarrow>
      pages_loaded (library_backend lib) key (Suc j) =
        \<lparr> w_state = browsing key (map (normalize_item (library_client lib)) (take (20 * Suc j) lib))
                       (Suc j) (int (Suc j) < pages_seen lib),
          w_pending = [] \<rparr>) \<and>
   (key \<noteq> [] \<and> length lib = 45 \<longrightarrow>
      (\<forall>k. resp_totalPages (fst (GET (library_backend lib)
              \<lparr> param_page = Some (toString (int k)), param_pageSize = Some (toString pageSize),
                param_parentId = None, param_embyKey = Some key,
                param_sortBy = Some ''SortName'', param_sortOrder = Some ''Ascending'' \<rparr>)) = Some 3) \<and>
      hasMore (w_state (pages_loaded (library_backend lib) key 1)) \<and>
      hasMore (w_state (pages_loaded (library_backend lib) key 2)) \<and>
      \<not> hasMore (w_state (pages_loaded (library_backend lib) key 3)) \<and>
      videos (w_state (pages_loaded (library_backend lib) key 3)) =
        map (normalize_item (library_client lib)) lib \<and>
      length (videos (w_state (pages_loaded (library_backend lib) key 3))) = 45 \<and>
      (distinct (map item_Id lib) \<longrightarrow>
         distinct (map video_id (videos (w_state (pages_loaded (library_backend lib) key 3))))))"
proof (intro conjI impI)
  assume a: "(isDefaultSort rq \<longrightarrow> cache_lookup be rq = None) \<and>
    getClient be (req_embyKey rq) = Inr client \<and>
    getItems client (items_query_of rq) = Inr result \<and>
    req_pageSize rq = Some ps \<and> ps \<noteq> 0"
  then have g: "fst (GET be rq) = success_response rq client result"
    by (simp add: GET_fresh)
  show "resp_totalPages (fst (GET be rq)) =
        Some \<lceil>rat_of_int (res_TotalRecordCount result) / rat_of_int ps\<rceil>"
    using a by (simp add: g success_response_def Math_ceil_div_def)
  assume "0 < ps"
  then show "\<exists>n. resp_totalPages (fst (GET be rq)) = Some n \<and>
              (n - 1) * ps < res_TotalRecordCount result \<and>
              res_TotalRecordCount result \<le> n * ps"
    using a Math_ceil_div_bounds [of ps "res_TotalRecordCount result"]
    by (simp add: g success_response_def Math_ceil_div_int)
next
  assume "key \<noteq> [] \<and> (j = 0 \<or> int j < pages_seen lib)"
  then show "pages_loaded (library_backend lib) key (Suc j) =
        \<lparr> w_state = browsing key (map (normalize_item (library_client lib)) (take (20 * Suc j) lib))
                       (Suc j) (int (Suc j) < pages_seen lib),
          w_pending = [] \<rparr>"
    by (simp add: pages_loaded_eq)
next
  assume a: "key \<noteq> [] \<and> length lib = 45"
  then have key: "key \<noteq> []" and len: "length lib = 45" by simp_all
  note seen = pages_seen_45 [OF len]
  have p1: "pages_loaded (library_backend lib) key 1 =
      \<lparr> w_state = browsing key (map (normalize_item (library_client lib)) (take (20 * Suc 0) lib))
                       (Suc 0) (int (Suc 0) < pages_seen lib), w_pending = [] \<rparr>"
    using pages_loaded_eq [OF key, of 0 lib] by simp
  have p2: "pages_loaded (library_backend lib) key 2 =
      \<lparr> w_state = browsing key (map (normalize_item (library_client lib)) (take (20 * Suc 1) lib))
                       (Suc 1) (int (Suc 1) < pages_seen lib), w_pending = [] \<rparr>"
    using pages_loaded_eq [OF key, of 1 lib] seen by (simp add: numeral_2_eq_2)
  have p3: "pages_loaded (library_backend lib) key 3 =
      \<lparr> w_state = browsing key (map (normalize_item (library_client lib)) (take (20 * Suc 2) lib))
                       (Suc 2) (int (Suc 2) < pages_seen lib), w_pending = [] \<rparr>"
    using pages_loaded_eq [OF key, of 2 lib] seen by (simp add: numeral_3_eq_3)
  show "\<forall>k. resp_totalPages (fst (GET (library_backend lib)
              \<lparr> param_page = Some (toString (int k)), param_pageSize = Some (toString pageSize),
                param_parentId = None, param_embyKey = Some key,
                param_sortBy = Some ''SortName'', param_sortOrder = Some ''Ascending'' \<rparr>)) = Some 3"
    by (simp add: GET_library len Math_ceil_div_int)
  show "hasMore (w_state (pages_loaded (library_backend lib) key 1))"
    unfolding p1 by (simp add: seen browsing_def)
  show "hasMore (w_state (pages_loaded (library_backend lib) key 2))"
    unfolding p2 by (simp add: seen browsing_def)
  show "\<not> hasMore (w_state (pages_loaded (library_backend lib) key 3))"
    unfolding p3 by (simp add: seen browsing_def)
  show v: "videos (w_state (pages_loaded (library_backend lib) key 3)) =
        map (normalize_item (library_client lib)) lib"
    unfolding p3 by (simp add: browsing_def len)
  show "length (videos (w_state (pages_loaded (library_backend lib) key 3))) = 45"
    by (simp add: v len)
  assume "distinct (map item_Id lib)"
  moreover have "video_id \<circ> normalize_item (library_client lib) = item_Id"
    by (rule ext) (simp add: normalize_item_def)
  ultimately show "distinct (map video_id (videos (w_state (pages_loaded (library_backend lib) key 3))))"
    by (simp add: v)
qed

theorem totalPages_and_paging_witness:
  "length demo_library = 45 \<and> distinct (map item_Id demo_library) \<and>
   req_pageSize demo_request = Some 20 \<and>
   resp_totalPages (fst (GET demo_backend demo_request)) = Some 3 \<and>
   hasMore (w_state (pages_loaded (library_backend demo_library) ''main'' 1)) \<and>
   hasMore (w_state (pages_loaded (library_backend demo_library) ''main'' 2)) \<and>
   \<not> hasMore (w_state (pages_loaded (library_backend demo_library) ''main'' 3)) \<and>
   length (videos (w_state (pages_loaded (library_backend demo_library) ''main'' 3))) = 45 \<and>
   distinct (map video_id (videos (w_state (pages_loaded (library_backend demo_library) ''main'' 3)))) \<and>
   w_pending (pages_loaded (library_backend demo_library) ''main'' (Suc 2)) = []"
proof -
  have len: "length demo_library = 45"
    by (simp add: demo_library_def)
  have dist: "distinct (map item_Id demo_library)"
    by code_simp
  have key: "''main'' \<noteq> []"
    by simp
  have j: "(2::nat) = 0 \<or> int 2 < pages_seen demo_library"
    by (simp add: pages_seen_45 [OF len])
  have c: "\<lceil>rat_of_int 45 / rat_of_int 20\<rceil> = 3"
    by (simp add: ceiling_def floor_divide_of_int_eq [of "- 45" 20, simplified])
  note t = totalPages_and_paging [of demo_request demo_backend demo_client
      "\<lparr> res_Items = demo_items, res_TotalRecordCount = 45 \<rparr>" 20 "''main''" 2 demo_library]
  have a: "resp_totalPages (fst (GET demo_backend demo_request)) = Some 3"
    using t demo_request_facts c by simp
  have b: "hasMore (w_state (pages_loaded (library_backend demo_library) ''main'' 1)) \<and>
      hasMore (w_state (pages_loaded (library_backend demo_library) ''main'' 2)) \<and>
      \<not> hasMore (w_state (pages_loaded (library_backend demo_library) ''main'' 3)) \<and>
      length (videos (w_state (pages_loaded (library_backend demo_library) ''main'' 3))) = 45 \<and>
      distinct (map video_id (videos (w_state (pages_loaded (library_backend demo_library) ''main'' 3))))"
    using t key len dist by blast
  have d: "w_pending (pages_loaded (library_backend demo_library) ''main'' (Suc 2)) = []"
    using t key j by simp
  from a b d len dist demo_request_facts(6) show ?thesis
    by simp
qed


end
